(* ===== verification/Prelude.thy ===== *)
theory Prelude
  imports Main
begin

text \<open>
  Shared vocabulary of the dali2mqtt model.  Python values that the lamp code
  inspects with \<open>isinstance\<close> and truth tests are the datatype \<open>pyval\<close>;
  the exceptions the code can raise are \<open>pyerror\<close>; a bus reply, read through
  the response object's \<open>.value\<close> attribute, is either the exception that the
  attribute access raises or the value it yields; \<open>str()\<close> of an int is
  \<open>show_int\<close>, with the reader \<open>dec_val\<close> of its digits.  The collection
  \<open>lamp_defs\<close> gathers the definitions of the component theories that the
  component proofs unfold.
\<close>

named_theorems lamp_defs "definitions of the lamp model unfolded by the component proofs"

section \<open>Python values\<close>

text \<open>
  The values that reach the lamp's level fields: Python ints (unbounded, so
  \<^typ>\<open>int\<close>), strings (python-dali answers a masked query with the string
  \<open>"MASK"\<close>), and \<open>None\<close> (the fallback of \<open>min_physical_level\<close>).
\<close>

datatype pyval = PInt int | PStr string | PNone

text \<open>\<open>isinstance(v, int)\<close>.\<close>

fun is_int :: "pyval \<Rightarrow> bool" where
  "is_int (PInt _) = True"
| "is_int (PStr _) = False"
| "is_int PNone = False"

text \<open>Python truthiness: \<open>0\<close>, the empty string and \<open>None\<close> are false.\<close>

fun truthy :: "pyval \<Rightarrow> bool" where
  "truthy (PInt i) = (i \<noteq> 0)"
| "truthy (PStr s) = (s \<noteq> [])"
| "truthy PNone = False"

text \<open>
  \<open>str()\<close> of a Python int, which \<open>json.dumps\<close> and f-strings both use:
  decimal digits, a minus sign for a negative number.  \<open>dec_val\<close> reads a
  digit string back.
\<close>

fun show_nat :: "nat \<Rightarrow> string" where
  "show_nat n = (if n < 10 then [char_of (48 + n)] else show_nat (n div 10) @ [char_of (48 + n mod 10)])"

definition show_int :: "int \<Rightarrow> string" where
  "show_int i = (if i < 0 then CHR ''-'' # show_nat (nat (- i)) else show_nat (nat i))"

definition is_digit :: "char \<Rightarrow> bool" where
  "is_digit c \<longleftrightarrow> (let n = (of_char c :: nat) in 48 \<le> n \<and> n \<le> 57)"

definition dec_val :: "string \<Rightarrow> nat" where
  "dec_val ds = foldl (\<lambda>acc c. acc * 10 + (of_char c - 48)) 0 ds"

text \<open>
  The exceptions of the model: a failed dictionary lookup, the two errors
  python-dali raises when a response's \<open>.value\<close> is read (no answer on the bus,
  a framing error), the legacy setter's range error, and the error of
  comparing an int with a non-int.
\<close>

datatype pyerror = KeyError string | MissingResponse | ResponseError | ValueError | TypeError

text \<open>A bus reply as the lamp code sees it: what reading \<open>.value\<close> does.\<close>

type_synonym reply = "pyerror + pyval"

section \<open>Generic lemmas\<close>

lemma is_int_iff [simp]: "is_int v \<longleftrightarrow> (\<exists>i. v = PInt i)"
  by (cases v) simp_all

lemma not_is_int_cases:
  assumes "\<not> is_int v"
  obtains s where "v = PStr s" | "v = PNone"
  using assms by (cases v) auto

lemma truthy_int_iff [simp]: "truthy v \<and> is_int v \<longleftrightarrow> (\<exists>i. v = PInt i \<and> i \<noteq> 0)"
  by (cases v) simp_all

text \<open>Splitting two strings at the first occurrence of a separator neither prefix holds.\<close>

lemma append_sep_cancel:
  "c \<notin> set d1 \<Longrightarrow> c \<notin> set d2 \<Longrightarrow> d1 @ c # s1 = d2 @ c # s2 \<Longrightarrow> d1 = d2 \<and> s1 = s2"
proof (induction d1 arbitrary: d2)
  case Nil
  then show ?case by (cases d2) auto
next
  case (Cons a d1)
  then show ?case by (cases d2) auto
qed

lemma case_pyval_const [simp]: "(case v of PInt i \<Rightarrow> c | PStr s \<Rightarrow> c | PNone \<Rightarrow> c) = c"
  by (cases v) simp_all

section \<open>Decimal rendering\<close>

text \<open>The digits \<open>str()\<close> prints read back to the number.\<close>

declare show_nat.simps [simp del]

lemma show_nat_small [simp]: "n < 10 \<Longrightarrow> show_nat n = [char_of (48 + n)]"
  by (simp add: show_nat.simps)

lemma show_nat_big: "\<not> n < 10 \<Longrightarrow> show_nat n = show_nat (n div 10) @ [char_of (48 + n mod 10)]"
  by (subst show_nat.simps) simp

lemma of_char_digit [simp]: "k < 10 \<Longrightarrow> (of_char (char_of (48 + k) :: char) :: nat) = 48 + k"
  by (simp add: of_char_of)

lemma show_nat_digits: "c \<in> set (show_nat n) \<Longrightarrow> is_digit c"
proof (induction n rule: show_nat.induct)
  case (1 n)
  show ?case
  proof (cases "n < 10")
    case True
    with "1.prems" show ?thesis by (auto simp: is_digit_def)
  next
    case False
    with "1.prems" have "c \<in> set (show_nat (n div 10)) \<or> c = char_of (48 + n mod 10)"
      by (auto simp: show_nat_big)
    with "1.IH" False show ?thesis by (auto simp: is_digit_def)
  qed
qed

lemma show_nat_not_Nil [simp]: "show_nat n \<noteq> []"
  by (cases "n < 10") (simp_all add: show_nat_big)

lemma dec_val_snoc: "dec_val (ds @ [c]) = dec_val ds * 10 + (of_char c - 48)"
  by (simp add: dec_val_def)

lemma dec_val_show_nat [simp]: "dec_val (show_nat n) = n"
proof (induction n rule: show_nat.induct)
  case (1 n)
  show ?case
  proof (cases "n < 10")
    case True
    then show ?thesis by (simp add: dec_val_def)
  next
    case False
    then show ?thesis by (simp add: show_nat_big dec_val_snoc "1.IH")
  qed
qed

lemma takeWhile_digits:
  "\<not> is_digit c \<Longrightarrow> takeWhile is_digit (show_nat n @ c # rest) = show_nat n"
  using show_nat_digits by (simp add: takeWhile_append2)

lemma not_digit_chars [simp]:
  "\<not> is_digit CHR 0x22" "\<not> is_digit CHR ''{''" "\<not> is_digit CHR ''}''" "\<not> is_digit CHR '',''"
  "\<not> is_digit CHR ''n''" "\<not> is_digit CHR ''-''" "\<not> is_digit CHR '' ''"
  by (simp_all add: is_digit_def)

lemma hd_show_nat: "hd (show_nat n) \<noteq> CHR ''-''"
  using show_nat_digits [OF hd_in_set [OF show_nat_not_Nil], of n] by auto

end
