(* ===== verification/Driver.thy ===== *)
theory Driver
  imports Prelude
begin

text \<open>
  The lamp's collaborators, modelled as explicit state: the DALI driver
  (\<open>driver.send\<close>), which records every command put on the bus and answers the
  four queries from a script of replies, and the module logger of
  \<open>dali2mqtt/lamp.py\<close>, whose threshold \<open>logger.setLevel\<close> sets and whose
  records \<open>logger.warning\<close>/\<open>logger.debug\<close> append.  The driver itself lives in
  python-dali and the level table in \<open>dali2mqtt/consts.py\<close>; neither is under
  src/, so both are modelled from the spec (\<section>6: a synchronous request/response
  primitive whose queries answer a value or fail, writes that are
  fire-and-forget).
\<close>

section \<open>Addresses and commands\<close>

text \<open>
  A DALI address object: \<open>dali.address.Short\<close> or \<open>dali.address.Group\<close>;
  \<open>Lamp.is_group\<close> distinguishes them by class.
\<close>

datatype address = Short nat | Group nat

text \<open>The six \<open>dali.gear.general\<close> commands the lamp sends.\<close>

datatype command =
    QueryPhysicalMinimum address
  | QueryMinLevel address
  | QueryMaxLevel address
  | QueryActualLevel address
  | DAPC address int
  | Off address

fun is_query :: "command \<Rightarrow> bool" where
  "is_query (QueryPhysicalMinimum _) = True"
| "is_query (QueryMinLevel _) = True"
| "is_query (QueryMaxLevel _) = True"
| "is_query (QueryActualLevel _) = True"
| "is_query (DAPC _ _) = False"
| "is_query (Off _) = False"

text \<open>The two log records the lamp code writes.\<close>

datatype log_msg =
    MinPhysicalLevelNone
  | SetBrightness string int

section \<open>The world of the lamp\<close>

record env =
  sent :: "command list"
  replies :: "reply list"
  logger_level :: int
  log_records :: "(int \<times> log_msg) list"

text \<open>
  \<open>driver.send(cmd)\<close>: the command is appended to the bus log.  A query takes
  the next scripted reply; an empty script is a query the gear did not answer,
  whose \<open>.value\<close> raises \<open>MissingResponse\<close>.  A write has no reply.
\<close>

definition send :: "command \<Rightarrow> env \<Rightarrow> reply \<times> env" where
  "send c e =
     (if is_query c then
        (case replies e of
           [] \<Rightarrow> (Inl MissingResponse, e\<lparr>sent := sent e @ [c]\<rparr>)
         | r # rs \<Rightarrow> (r, e\<lparr>sent := sent e @ [c], replies := rs\<rparr>))
      else (Inr PNone, e\<lparr>sent := sent e @ [c]\<rparr>))"

text \<open>The numeric levels of Python's \<open>logging\<close> module.\<close>

definition DEBUG :: int where "DEBUG = 10"
definition WARNING :: int where "WARNING = 30"

text \<open>\<open>ALL_SUPPORTED_LOG_LEVELS\<close> of \<open>consts.py\<close>, a dictionary from names to levels.\<close>

definition ALL_SUPPORTED_LOG_LEVELS :: "(string \<times> int) list" where
  "ALL_SUPPORTED_LOG_LEVELS =
     [(''critical'', 50), (''error'', 40), (''warning'', WARNING), (''info'', 20),
      (''debug'', DEBUG)]"

text \<open>\<open>logger.setLevel(ALL_SUPPORTED_LOG_LEVELS[log_level])\<close>: a KeyError for an unknown name.\<close>

definition set_log_level :: "string \<Rightarrow> env \<Rightarrow> pyerror + env" where
  "set_log_level name e =
     (case map_of ALL_SUPPORTED_LOG_LEVELS name of
        None \<Rightarrow> Inl (KeyError name)
      | Some lvl \<Rightarrow> Inr (e\<lparr>logger_level := lvl\<rparr>))"

text \<open>\<open>logger.log(lvl, msg)\<close>: the record is kept when \<open>lvl\<close> reaches the threshold.\<close>

definition log_emit :: "int \<Rightarrow> log_msg \<Rightarrow> env \<Rightarrow> env" where
  "log_emit lvl m e =
     (if logger_level e \<le> lvl then e\<lparr>log_records := log_records e @ [(lvl, m)]\<rparr> else e)"

lemmas driver_defs [lamp_defs] = send_def log_emit_def set_log_level_def

section \<open>Frame lemmas\<close>

text \<open>A write only appends to the bus log; logging never touches the bus.\<close>

lemma send_write [simp]:
  "\<not> is_query c \<Longrightarrow> send c e = (Inr PNone, e\<lparr>sent := sent e @ [c]\<rparr>)"
  by (simp add: send_def)

lemma send_query_sent [simp]: "sent (snd (send c e)) = sent e @ [c]"
  by (simp add: send_def split: list.splits)

lemma send_query_reply:
  "is_query c \<Longrightarrow> replies e = r # rs \<Longrightarrow> send c e = (r, e\<lparr>sent := sent e @ [c], replies := rs\<rparr>)"
  by (simp add: send_def)

lemma send_query_noreply:
  "is_query c \<Longrightarrow> replies e = [] \<Longrightarrow> send c e = (Inl MissingResponse, e\<lparr>sent := sent e @ [c]\<rparr>)"
  by (simp add: send_def)

lemma log_emit_sent [simp]: "sent (log_emit lvl m e) = sent e"
  by (simp add: log_emit_def)

lemma log_emit_replies [simp]: "replies (log_emit lvl m e) = replies e"
  by (simp add: log_emit_def)

lemma log_emit_level [simp]: "logger_level (log_emit lvl m e) = logger_level e"
  by (simp add: log_emit_def)

end
