(* ===== verification/Slugify.thy ===== *)
theory Slugify
  imports Prelude
begin

text \<open>
  \<open>slugify(friendly_name)\<close> of python-slugify, which both lamp classes use to
  derive \<open>device_name\<close> (src/dali2mqtt/lamp.py line 42, src/lamp.py line 35).
  The library is not part of this repository; it is modelled from the spec
  (\<section>3: "lowercase, non-alphanumeric runs collapsed to a single separator") and
  from the library's documented regex pipeline on ASCII input: lowercase,
  replace every run of characters outside \<open>[a-z0-9]\<close> by \<open>-\<close>, strip \<open>-\<close> from
  both ends.  The pipeline is written as one left-to-right scan whose state
  says whether nothing was emitted yet, a word is open, or a gap is pending.
  Transliteration of non-ASCII text (unidecode) is not modelled: such bytes
  count as separators.  Nor are the library's rules beyond the spec's
  description (HTML entities, a comma between two digits dropped rather than
  separating them): on names that hold them the model and the library differ.
\<close>

definition lower_ascii :: "char \<Rightarrow> char" where
  "lower_ascii c = (let n = (of_char c :: nat) in if 65 \<le> n \<and> n \<le> 90 then char_of (n + 32) else c)"

definition slug_alnum :: "char \<Rightarrow> bool" where
  "slug_alnum c \<longleftrightarrow> (let n = (of_char c :: nat) in (97 \<le> n \<and> n \<le> 122) \<or> (48 \<le> n \<and> n \<le> 57))"

datatype slug_state = SStart | SWord | SGap

fun slug_scan :: "slug_state \<Rightarrow> string \<Rightarrow> string" where
  "slug_scan st [] = []"
| "slug_scan st (c # cs) =
     (let d = lower_ascii c in
      if slug_alnum d then
        (if st = SGap then CHR ''-'' # d # slug_scan SWord cs else d # slug_scan SWord cs)
      else slug_scan (if st = SStart then SStart else SGap) cs)"

definition slugify :: "string \<Rightarrow> string" where
  "slugify s = slug_scan SStart s"


text \<open>
  The shape of a slug: only \<open>[a-z0-9-]\<close>, no separator first, and every
  separator followed by a letter or digit (so none last and no two in a row).
\<close>

fun sep_ok :: "string \<Rightarrow> bool" where
  "sep_ok [] = True"
| "sep_ok [c] = (c \<noteq> CHR ''-'')"
| "sep_ok (a # b # cs) = ((a \<noteq> CHR ''-'' \<or> slug_alnum b) \<and> sep_ok (b # cs))"

definition is_slug :: "string \<Rightarrow> bool" where
  "is_slug s \<longleftrightarrow>
     list_all (\<lambda>c. slug_alnum c \<or> c = CHR ''-'') s \<and> sep_ok s \<and>
     (case s of [] \<Rightarrow> True | c # _ \<Rightarrow> c \<noteq> CHR ''-'')"

text \<open>What the scanner sees of a character: its lower-cased letter or digit, or a separator.\<close>

definition slug_class :: "char \<Rightarrow> char option" where
  "slug_class c = (let d = lower_ascii c in if slug_alnum d then Some d else None)"

section \<open>Lemmas on the scanner\<close>

lemma lower_ascii_alnum [simp]: "slug_alnum c \<Longrightarrow> lower_ascii c = c"
  by (auto simp: slug_alnum_def lower_ascii_def Let_def)

lemma dash_not_alnum [simp]: "\<not> slug_alnum CHR ''-''"
  by (simp add: slug_alnum_def)

lemma lower_ascii_dash [simp]: "lower_ascii CHR ''-'' = CHR ''-''"
  by (simp add: lower_ascii_def)

lemma alnum_not_dash: "slug_alnum c \<Longrightarrow> c \<noteq> CHR ''-''"
  by auto

lemma sep_ok_Cons_alnum: "c \<noteq> CHR ''-'' \<Longrightarrow> sep_ok (c # r) = sep_ok r"
  by (cases r) simp_all

lemma slug_scan_chars: "list_all (\<lambda>c. slug_alnum c \<or> c = CHR ''-'') (slug_scan st s)"
  by (induction st s rule: slug_scan.induct) (auto simp: Let_def)

lemma slug_scan_sep_ok: "sep_ok (slug_scan st s)"
proof (induction st s rule: slug_scan.induct)
  case (1 st)
  then show ?case by simp
next
  case (2 st c cs)
  then show ?case
    by (auto simp: Let_def sep_ok_Cons_alnum alnum_not_dash)
qed

lemma slug_scan_start_head: "slug_scan SStart s = c # r \<Longrightarrow> slug_alnum c"
  by (induction s) (auto simp: Let_def split: if_splits)

lemma slug_scan_is_slug: "is_slug (slugify s)"
proof -
  have "case slug_scan SStart s of [] \<Rightarrow> True | c # _ \<Rightarrow> c \<noteq> CHR ''-''"
    by (auto split: list.split dest: slug_scan_start_head)
  then show ?thesis
    using slug_scan_chars slug_scan_sep_ok by (simp add: is_slug_def slugify_def)
qed

lemma slug_scan_word_fix:
  "list_all (\<lambda>c. slug_alnum c \<or> c = CHR ''-'') s \<Longrightarrow> sep_ok s \<Longrightarrow> slug_scan SWord s = s"
proof (induction s rule: sep_ok.induct)
  case 1
  then show ?case by simp
next
  case (2 c)
  then show ?case by auto
next
  case (3 a b cs)
  from "3.prems" have ih: "slug_scan SWord (b # cs) = b # cs"
    by (intro "3.IH") auto
  show ?case
  proof (cases "a = CHR ''-''")
    case True
    with "3.prems" have b: "slug_alnum b" by auto
    with ih have "slug_scan SWord cs = cs" by (simp add: Let_def)
    with True b show ?thesis by (simp add: Let_def)
  next
    case False
    with "3.prems" have "slug_alnum a" by auto
    with ih show ?thesis by (simp add: Let_def)
  qed
qed


lemma slug_fix: "is_slug t \<Longrightarrow> slugify t = t"
proof (cases t)
  case Nil
  then show ?thesis by (simp add: slugify_def)
next
  case (Cons c r)
  assume "is_slug t"
  with Cons have c: "slug_alnum c" and r: "list_all (\<lambda>c. slug_alnum c \<or> c = CHR ''-'') r"
    and "sep_ok (c # r)"
    by (auto simp: is_slug_def)
  then have "sep_ok r" using alnum_not_dash by (simp add: sep_ok_Cons_alnum)
  with r have "slug_scan SWord r = r" by (rule slug_scan_word_fix)
  with Cons c show ?thesis by (simp add: slugify_def Let_def)
qed

lemma slug_scan_content:
  "filter slug_alnum (slug_scan st s) = filter slug_alnum (map lower_ascii s)"
  by (induction st s rule: slug_scan.induct) (auto simp: Let_def)

lemma slug_scan_class:
  "map slug_class s = map slug_class t \<Longrightarrow> slug_scan st s = slug_scan st t"
proof (induction s arbitrary: t st)
  case Nil
  then show ?case by simp
next
  case (Cons c s)
  then obtain c' t' where t: "t = c' # t'" and cc: "slug_class c = slug_class c'"
    and ss: "map slug_class s = map slug_class t'" by (cases t) auto
  have "slug_alnum (lower_ascii c) = slug_alnum (lower_ascii c')"
    and "slug_alnum (lower_ascii c) \<Longrightarrow> lower_ascii c = lower_ascii c'"
    using cc by (auto simp: slug_class_def Let_def split: if_splits)
  with t Cons.IH [OF ss] show ?case by (simp add: Let_def)
qed

lemma slug_no_slash: "is_slug d \<Longrightarrow> CHR ''/'' \<notin> set d"
  by (auto simp: is_slug_def list_all_iff slug_alnum_def)

lemma slug_no_space: "is_slug d \<Longrightarrow> CHR '' '' \<notin> set d"
  by (auto simp: is_slug_def list_all_iff slug_alnum_def)

section \<open>Properties of the slug\<close>

text \<open>
  What \<open>slugify\<close> computes: every result is a slug, it keeps the letters and
  digits of the name, lower-cased, in order and nothing else, and the slugs
  are exactly its fixed points.  Names with the same scanner view of each
  character have the same slug.  LampInit states both of the device name the
  constructor derives.
\<close>

lemma slugify_characterised:
  "is_slug (slugify s) \<and>
   filter slug_alnum (slugify s) = filter slug_alnum (map lower_ascii s) \<and>
   (slugify t = t \<longleftrightarrow> is_slug t)"
proof (intro conjI)
  show "is_slug (slugify s)" by (rule slug_scan_is_slug)
  show "filter slug_alnum (slugify s) = filter slug_alnum (map lower_ascii s)"
    by (simp add: slugify_def slug_scan_content)
  show "slugify t = t \<longleftrightarrow> is_slug t"
  proof
    assume "slugify t = t"
    with slug_scan_is_slug [of t] show "is_slug t" by simp
  next
    assume "is_slug t"
    then show "slugify t = t" by (rule slug_fix)
  qed
qed

lemma slugify_collisions:
  assumes "map slug_class a = map slug_class b"
  shows "slugify a = slugify b"
  unfolding slugify_def by (rule slug_scan_class [OF assms])

end
