(* ===== verification/Lamp.thy ===== *)
theory Lamp
  imports Driver Slugify
begin

text \<open>
  The class \<open>Lamp\<close> of src/dali2mqtt/lamp.py.  An object is the record
  \<open>lamp\<close>; every method is a function from the object and the world
  (\<^typ>\<open>env\<close>: driver and logger) to the updated object and world, with a
  \<^typ>\<open>pyerror\<close> result where the method can raise.  The property \<open>level\<close>
  with its validating setter is the function \<open>level_setter\<close>.  The
  constructor, which assigns \<open>self.level\<close> and therefore runs the setter, is
  in theory LampInit.
\<close>

section \<open>The object\<close>

text \<open>
  \<open>driver_name\<close> is the part of \<open>self.driver\<close> the object itself reads
  (\<open>type(self.driver).__name__\<close>); the driver's mutable state is the world.
  \<open>associated_lamps\<close> holds references to other lamp objects, modelled as
  keys of a heap of lamps (theory Groups).  \<open>level\<close> is the private
  \<open>self.__level\<close>; every assignment to it in the class stores an int.
\<close>

record lamp =
  driver_name :: string
  short_address :: address
  friendly_name :: string
  associated_lamps :: "nat list option"
  device_name :: string
  min_physical_level :: pyval
  min_level :: pyval
  max_level :: pyval
  level :: int

section \<open>Operations\<close>

text \<open>\<open>actual_level\<close> (lines 91--97): re-read the gear's level, 0 when it is not an int.\<close>

definition actual_level :: "lamp \<Rightarrow> env \<Rightarrow> (pyerror + lamp) \<times> env" where
  "actual_level l e =
     (let (r, e1) = send (QueryActualLevel (short_address l)) e in
      case r of
        Inl err \<Rightarrow> (Inl err, e1)
      | Inr local_level \<Rightarrow>
          (case local_level of
             PInt v \<Rightarrow> (Inr (l\<lparr>level := v\<rparr>), e1)
           | _ \<Rightarrow> (Inr (l\<lparr>level := 0\<rparr>), e1)))"

text \<open>The getter of \<open>level\<close> (lines 99--102): the private \<open>self.__level\<close>.\<close>

definition level_get :: "lamp \<Rightarrow> int" where
  "level_get l = level l"

text \<open>
  The setter of \<open>level\<close> (lines 104--120): a non-zero int is clamped, first
  against \<open>min_level\<close>, else against \<open>max_level\<close>, each only when that bound
  is an int; an int is then stored, sent as DAPC and logged at debug level; any
  other value stores 0 and sends nothing.
\<close>

definition level_setter :: "pyval \<Rightarrow> lamp \<Rightarrow> env \<Rightarrow> lamp \<times> env" where
  "level_setter value l e =
     (let value =
        (case value of
           PInt v \<Rightarrow>
             (if v \<noteq> 0 then
                (if (case min_level l of PInt mn \<Rightarrow> v < mn | _ \<Rightarrow> False) then min_level l
                 else if (case max_level l of PInt mx \<Rightarrow> v > mx | _ \<Rightarrow> False) then max_level l
                 else value)
              else value)
         | _ \<Rightarrow> value)
      in case value of
           PInt v \<Rightarrow>
             (let l1 = l\<lparr>level := v\<rparr>;
                  e1 = snd (send (DAPC (short_address l1) (level l1)) e)
              in (l1, log_emit DEBUG (SetBrightness (friendly_name l1) (level l1)) e1))
         | _ \<Rightarrow> (l\<lparr>level := 0\<rparr>, e))"

text \<open>
  \<open>level_change_needed\<close> (lines 122--134): true for 0, false for a non-int,
  otherwise whether the clamped value differs from the cached level.
\<close>

definition level_change_needed :: "lamp \<Rightarrow> pyval \<Rightarrow> bool" where
  "level_change_needed l value =
     (case value of
        PInt v \<Rightarrow>
          (if v = 0 then True
           else
             (let v' = (if (case min_level l of PInt mn \<Rightarrow> v < mn | _ \<Rightarrow> False) then min_level l
                        else if (case max_level l of PInt mx \<Rightarrow> v > mx | _ \<Rightarrow> False) then max_level l
                        else value);
                  current_level = level l
              in v' \<noteq> PInt current_level))
      | _ \<Rightarrow> False)"

text \<open>\<open>off\<close> (lines 139--142): send Off, cache 0.\<close>

definition off :: "lamp \<Rightarrow> env \<Rightarrow> lamp \<times> env" where
  "off l e = (l\<lparr>level := 0\<rparr>, snd (send (Off (short_address l)) e))"

text \<open>\<open>is_group\<close> (lines 153--154).\<close>

definition is_group :: "lamp \<Rightarrow> bool" where
  "is_group l = (case short_address l of Group _ \<Rightarrow> True | Short _ \<Rightarrow> False)"

text \<open>\<open>add_associated_lamp\<close> (lines 156--159): create the list on first use, then append.\<close>

definition add_associated_lamp :: "lamp \<Rightarrow> nat \<Rightarrow> lamp" where
  "add_associated_lamp l assoc =
     (let xs = (case associated_lamps l of None \<Rightarrow> [] | Some xs \<Rightarrow> xs)
      in l\<lparr>associated_lamps := Some (xs @ [assoc])\<rparr>)"

section \<open>Serialised runs of operations\<close>

text \<open>
  Spec \<section>5 requires the integration layer to serialise the mutating
  operations on one lamp.  A run is such a sequence: assignments to
  \<open>level\<close>, \<open>off()\<close> and \<open>actual_level()\<close> refreshes, the world threaded
  through; a raising refresh ends the run with its exception.
\<close>

datatype lamp_op = SetLevel pyval | TurnOff | Refresh

fun run_ops :: "lamp \<Rightarrow> env \<Rightarrow> lamp_op list \<Rightarrow> (pyerror + lamp) \<times> env" where
  "run_ops l e [] = (Inr l, e)"
| "run_ops l e (SetLevel v # ops) = (case level_setter v l e of (l', e') \<Rightarrow> run_ops l' e' ops)"
| "run_ops l e (TurnOff # ops) = (case off l e of (l', e') \<Rightarrow> run_ops l' e' ops)"
| "run_ops l e (Refresh # ops) =
     (case actual_level l e of (Inl err, e') \<Rightarrow> (Inl err, e') | (Inr l', e') \<Rightarrow> run_ops l' e' ops)"

section \<open>Readings of the clamp, the invariant and the bounds\<close>

text \<open>
  The clamp that the setter and \<open>level_change_needed\<close> both compute for a
  non-zero int, read off as a function of the two bounds: the minimum is
  checked first and, only when it does not apply, the maximum.
\<close>

fun clamp_max :: "pyval \<Rightarrow> int \<Rightarrow> int" where
  "clamp_max (PInt mx) v = (if v > mx then mx else v)"
| "clamp_max (PStr _) v = v"
| "clamp_max PNone v = v"

fun clamp_int :: "pyval \<Rightarrow> pyval \<Rightarrow> int \<Rightarrow> int" where
  "clamp_int (PInt mn) mx v = (if v < mn then mn else clamp_max mx v)"
| "clamp_int (PStr _) mx v = clamp_max mx v"
| "clamp_int PNone mx v = clamp_max mx v"

text \<open>
  The abstract contract of spec \<section>4.3 for int bounds: 0 is kept, every
  other request lands in \<open>[mn, mx]\<close>.
\<close>

definition clamp_level :: "int \<Rightarrow> int \<Rightarrow> int \<Rightarrow> int" where
  "clamp_level mn mx v = (if v = 0 then 0 else max mn (min mx v))"

text \<open>
  The invariant of spec \<section>3: the cached level is off (0) or lies within the
  bounds that are ints.  It needs the bounds to be ordered, which nothing in
  the constructor checks: \<open>bounds_ok\<close>.
\<close>

definition within_bounds :: "pyval \<Rightarrow> pyval \<Rightarrow> int \<Rightarrow> bool" where
  "within_bounds mn mx v \<longleftrightarrow>
     (case mn of PInt a \<Rightarrow> a \<le> v | _ \<Rightarrow> True) \<and> (case mx of PInt b \<Rightarrow> v \<le> b | _ \<Rightarrow> True)"

definition level_ok :: "lamp \<Rightarrow> bool" where
  "level_ok l \<longleftrightarrow> level l = 0 \<or> within_bounds (min_level l) (max_level l) (level l)"

definition ordered_bounds :: "pyval \<Rightarrow> pyval \<Rightarrow> bool" where
  "ordered_bounds mn mx \<longleftrightarrow> (case (mn, mx) of (PInt a, PInt b) \<Rightarrow> a \<le> b | _ \<Rightarrow> True)"

definition bounds_ok :: "lamp \<Rightarrow> bool" where
  "bounds_ok l \<longleftrightarrow> ordered_bounds (min_level l) (max_level l)"

section \<open>Example objects\<close>

text \<open>The lamp of spec \<section>8, scenario A, and a quiet bus.\<close>

definition scenario_lamp :: lamp where
  "scenario_lamp =
     \<lparr>driver_name = ''HassebDALIUSBDriver'', short_address = Short 3,
      friendly_name = ''Kitchen Ceiling Light'', associated_lamps = None,
      device_name = ''kitchen-ceiling-light'', min_physical_level = PInt 86,
      min_level = PInt 86, max_level = PInt 254, level = 150\<rparr>"

text \<open>
  The world right after the module is imported (lines 22--23):
  \<open>logging.basicConfig\<close> gives the root logger its default level WARNING,
  and \<open>logging.getLogger(__name__)\<close> creates the module logger with level
  NOTSET, so its effective threshold is the root's WARNING until a constructor
  calls \<open>setLevel\<close>.  Nothing has been sent yet; the gear's answers are the
  script.
\<close>

definition module_env :: "reply list \<Rightarrow> env" where
  "module_env rs = \<lparr>sent = [], replies = rs, logger_level = WARNING, log_records = []\<rparr>"

definition quiet_env :: env where
  "quiet_env = \<lparr>sent = [], replies = [], logger_level = 20, log_records = []\<rparr>"

section \<open>Normal forms of the operations\<close>

lemmas lamp_op_defs [lamp_defs] =
  actual_level_def level_setter_def level_change_needed_def off_def add_associated_lamp_def



lemma clamp_int_clamp_level: "v \<noteq> 0 \<Longrightarrow> mn \<le> mx \<Longrightarrow> clamp_int (PInt mn) (PInt mx) v = clamp_level mn mx v"
  by (auto simp: clamp_level_def)

lemma clamp_int_fix: "within_bounds mn mx v \<Longrightarrow> clamp_int mn mx v = v"
  by (cases mn; cases mx) (auto simp: within_bounds_def)

lemma level_setter_nonzero:
  "v \<noteq> 0 \<Longrightarrow> level_setter (PInt v) l e =
     (let c = clamp_int (min_level l) (max_level l) v
      in (l\<lparr>level := c\<rparr>,
          log_emit DEBUG (SetBrightness (friendly_name l) c) (e\<lparr>sent := sent e @ [DAPC (short_address l) c]\<rparr>)))"
  by (cases "min_level l"; cases "max_level l") (auto simp: level_setter_def Let_def)

lemma level_setter_zero:
  "level_setter (PInt 0) l e =
     (l\<lparr>level := 0\<rparr>,
      log_emit DEBUG (SetBrightness (friendly_name l) 0) (e\<lparr>sent := sent e @ [DAPC (short_address l) 0]\<rparr>))"
  by (simp add: level_setter_def)

lemma level_setter_not_int: "\<not> is_int v \<Longrightarrow> level_setter v l e = (l\<lparr>level := 0\<rparr>, e)"
  by (cases v) (simp_all add: level_setter_def)

lemma level_change_needed_nonzero:
  "v \<noteq> 0 \<Longrightarrow> level_change_needed l (PInt v) \<longleftrightarrow> clamp_int (min_level l) (max_level l) v \<noteq> level l"
  by (cases "min_level l"; cases "max_level l") (auto simp: level_change_needed_def Let_def)

lemma level_change_needed_not_int: "\<not> is_int v \<Longrightarrow> \<not> level_change_needed l v"
  by (cases v) (simp_all add: level_change_needed_def)

lemmas level_setter_simps = level_setter_nonzero level_setter_zero level_setter_not_int

text \<open>Frame facts of the setter: it changes only the cached level, and appends to the bus and the log.\<close>

lemma level_setter_frame: "fst (level_setter v l e) = l\<lparr>level := level (fst (level_setter v l e))\<rparr>"
  by (cases v) (simp_all add: level_setter_def Let_def split: pyval.split)

lemma level_setter_sent:
  "sent (snd (level_setter v l e)) =
     sent e @ (if is_int v then [DAPC (short_address l) (level (fst (level_setter v l e)))] else [])"
  by (cases v) (auto simp: level_setter_def Let_def split: pyval.split)

lemma level_setter_log_prefix: "\<exists>ys. log_records (snd (level_setter v l e)) = log_records e @ ys"
  by (cases v) (auto simp: level_setter_def Let_def log_emit_def split: pyval.split)

lemma level_setter_fields [simp]:
  "min_level (fst (level_setter v l e)) = min_level l"
  "max_level (fst (level_setter v l e)) = max_level l"
  "min_physical_level (fst (level_setter v l e)) = min_physical_level l"
  "short_address (fst (level_setter v l e)) = short_address l"
  "associated_lamps (fst (level_setter v l e)) = associated_lamps l"
  "device_name (fst (level_setter v l e)) = device_name l"
  "friendly_name (fst (level_setter v l e)) = friendly_name l"
  "driver_name (fst (level_setter v l e)) = driver_name l"
  by (cases v; simp add: level_setter_def Let_def split: pyval.split)+

lemma level_setter_level:
  "level (fst (level_setter v l e)) =
     (case v of PInt a \<Rightarrow> if a = 0 then 0 else clamp_int (min_level l) (max_level l) a | _ \<Rightarrow> 0)"
  by (cases v) (simp_all add: level_setter_simps Let_def)




lemma actual_level_frame: "actual_level l e = (Inr l', e') \<Longrightarrow> l' = l\<lparr>level := level l'\<rparr>"
  by (auto simp: actual_level_def split: prod.splits sum.splits pyval.splits)

section \<open>The level controller\<close>

text \<open>
  C1. Setting a level refines the clamp contract of spec \<section>4.3: with int
  bounds \<open>mn \<le> mx\<close>, the setter caches \<open>clamp_level mn mx v\<close> (0 kept,
  anything else forced into \<open>[mn, mx]\<close>) and sends exactly one DAPC command
  carrying that value to the lamp's address.
\<close>

theorem level_setter_refines_clamp:
  assumes "min_level l = PInt mn" and "max_level l = PInt mx" and "mn \<le> mx"
  shows "fst (level_setter (PInt v) l e) = l\<lparr>level := clamp_level mn mx v\<rparr> \<and>
         sent (snd (level_setter (PInt v) l e)) = sent e @ [DAPC (short_address l) (clamp_level mn mx v)]"
proof (cases "v = 0")
  case True
  then show ?thesis by (simp add: level_setter_zero clamp_level_def)
next
  case False
  with assms have "clamp_int (min_level l) (max_level l) v = clamp_level mn mx v"
    by (simp add: clamp_level_def)
  with False show ?thesis by (simp add: level_setter_nonzero Let_def)
qed

theorem level_setter_refines_clamp_witness:
  "min_level scenario_lamp = PInt 86 \<and> max_level scenario_lamp = PInt 254 \<and> (86::int) \<le> 254 \<and>
   fst (level_setter (PInt 50) scenario_lamp quiet_env) = scenario_lamp\<lparr>level := 86\<rparr> \<and>
   sent (snd (level_setter (PInt 50) scenario_lamp quiet_env)) = [DAPC (Short 3) 86]"
proof -
  have mn: "min_level scenario_lamp = PInt 86" and mx: "max_level scenario_lamp = PInt 254"
    and addr: "short_address scenario_lamp = Short 3"
    by (simp_all add: scenario_lamp_def)
  have c: "clamp_level 86 254 50 = 86" by (simp add: clamp_level_def)
  from level_setter_refines_clamp [OF mn mx, of 50 quiet_env] c addr show ?thesis
    by (simp add: mn mx quiet_env_def)
qed

text \<open>
  C2. The predictor agrees with the committer (spec \<section>4.3, design rationale):
  for every non-zero int request and every lamp, whatever its bounds,
  \<open>level_change_needed\<close> is true exactly when the setter would change the
  cached level.
\<close>

theorem level_change_needed_iff_setter_changes:
  assumes "v \<noteq> 0"
  shows "level_change_needed l (PInt v) \<longleftrightarrow> level (fst (level_setter (PInt v) l e)) \<noteq> level l"
  using assms by (simp add: level_change_needed_nonzero level_setter_nonzero Let_def)

theorem level_change_needed_iff_setter_changes_witness:
  "(300::int) \<noteq> 0 \<and> level_change_needed scenario_lamp (PInt 300) \<and>
   level (fst (level_setter (PInt 300) scenario_lamp quiet_env)) = 254"
  using level_change_needed_iff_setter_changes [of 300 scenario_lamp quiet_env]
  by (simp add: scenario_lamp_def level_setter_nonzero)



text \<open>
  C4. Predictor/committer consistency of spec \<section>8 for non-zero requests:
  right after \<open>level = v\<close>, \<open>level_change_needed(v)\<close> is false.
\<close>

theorem no_change_needed_after_set:
  assumes "v \<noteq> 0"
  shows "\<not> level_change_needed (fst (level_setter (PInt v) l e)) (PInt v)"
  using assms by (simp add: level_change_needed_nonzero level_setter_nonzero Let_def)

theorem no_change_needed_after_set_witness:
  "(50::int) \<noteq> 0 \<and> \<not> level_change_needed (fst (level_setter (PInt 50) scenario_lamp quiet_env)) (PInt 50)"
  using no_change_needed_after_set [of 50 scenario_lamp quiet_env] by simp

text \<open>
  C5. A request that is not an int (a malformed broker payload) is not a
  no-op: the predictor answers false, but the setter caches 0 and sends
  nothing to the gear, so the cache says "off" while the lamp stays lit.
\<close>

theorem level_setter_malformed:
  assumes "\<not> is_int v"
  shows "level_setter v l e = (l\<lparr>level := 0\<rparr>, e) \<and> \<not> level_change_needed l v"
  using assms by (simp add: level_setter_not_int level_change_needed_not_int)

theorem level_setter_malformed_witness:
  "\<not> is_int (PStr ''ON'') \<and>
   level_setter (PStr ''ON'') scenario_lamp quiet_env = (scenario_lamp\<lparr>level := 0\<rparr>, quiet_env) \<and>
   \<not> level_change_needed scenario_lamp (PStr ''ON'')"
  using level_setter_malformed [of "PStr ''ON''" scenario_lamp quiet_env] by simp

text \<open>
  C6. \<open>off\<close> always caches 0 and sends one Off command to the lamp's address;
  turning off twice leaves the same object as turning off once.
\<close>

theorem off_idempotent:
  "level (fst (off l e)) = 0 \<and>
   sent (snd (off l e)) = sent e @ [Off (short_address l)] \<and>
   fst (off (fst (off l e)) e') = fst (off l e)"
  by (simp add: off_def)

text \<open>
  C7. \<open>actual_level\<close> consumes one reply of the gear: an int becomes the cached
  level, any other value caches 0, and a raising read propagates its
  exception; the query is on the bus in every case.
\<close>

theorem actual_level_reads:
  assumes "replies e = r # rs"
  shows "actual_level l e =
    ((case r of
        Inl err \<Rightarrow> Inl err
      | Inr (PInt v) \<Rightarrow> Inr (l\<lparr>level := v\<rparr>)
      | Inr _ \<Rightarrow> Inr (l\<lparr>level := 0\<rparr>)),
     e\<lparr>sent := sent e @ [QueryActualLevel (short_address l)], replies := rs\<rparr>)"
  using assms
  by (simp add: actual_level_def send_query_reply split: sum.split pyval.split)

theorem actual_level_reads_witness:
  "replies (quiet_env\<lparr>replies := [Inr (PStr ''MASK'')]\<rparr>) = [Inr (PStr ''MASK'')] \<and>
   actual_level scenario_lamp (quiet_env\<lparr>replies := [Inr (PStr ''MASK'')]\<rparr>) =
     (Inr (scenario_lamp\<lparr>level := 0\<rparr>),
      quiet_env\<lparr>sent := [QueryActualLevel (Short 3)], replies := []\<rparr>)"
  using actual_level_reads [of "quiet_env\<lparr>replies := [Inr (PStr ''MASK'')]\<rparr>" "Inr (PStr ''MASK'')" "[]" scenario_lamp]
  by (simp add: quiet_env_def scenario_lamp_def)

text \<open>
  C8. The refresh keeps the level invariant of spec \<section>3 only when the gear's
  answer happens to satisfy it: after \<open>actual_level()\<close> reads an int
  \<open>a\<close>, the invariant holds exactly when \<open>a\<close> is 0 or within the int
  bounds, whatever held before.  The method stores the answer without the
  clamp the setter applies, so a level another controller set outside the
  bounds becomes the cached level.
\<close>

theorem actual_level_level_ok_iff:
  assumes "replies e = Inr (PInt a) # rs" and "actual_level l e = (Inr l', e')"
  shows "level_ok l' \<longleftrightarrow> a = 0 \<or> within_bounds (min_level l) (max_level l) a"
proof -
  from assms have "l' = l\<lparr>level := a\<rparr>"
    by (simp add: actual_level_def send_query_reply)
  then show ?thesis by (simp add: level_ok_def)
qed

theorem actual_level_level_ok_iff_witness:
  "bounds_ok scenario_lamp \<and> level_ok scenario_lamp \<and>
   actual_level scenario_lamp (quiet_env\<lparr>replies := [Inr (PInt 20)]\<rparr>) =
     (Inr (scenario_lamp\<lparr>level := 20\<rparr>), quiet_env\<lparr>sent := [QueryActualLevel (Short 3)], replies := []\<rparr>) \<and>
   \<not> level_ok (scenario_lamp\<lparr>level := 20\<rparr>)"
proof -
  let ?e = "quiet_env\<lparr>replies := [Inr (PInt 20)]\<rparr>"
  have r: "replies ?e = Inr (PInt 20) # []" by simp
  have act: "actual_level scenario_lamp ?e =
          (Inr (scenario_lamp\<lparr>level := 20\<rparr>), quiet_env\<lparr>sent := [QueryActualLevel (Short 3)], replies := []\<rparr>)"
    by (simp add: actual_level_def send_def quiet_env_def scenario_lamp_def)
  have nb: "\<not> (20 = (0::int) \<or> within_bounds (min_level scenario_lamp) (max_level scenario_lamp) 20)"
    by (simp add: scenario_lamp_def within_bounds_def)
  have "bounds_ok scenario_lamp" and "level_ok scenario_lamp"
    by (simp_all add: scenario_lamp_def bounds_ok_def ordered_bounds_def level_ok_def within_bounds_def)
  with actual_level_level_ok_iff [OF r act] nb act show ?thesis by simp
qed

text \<open>
  C22. The bounds, address, names and member list of a lamp are fixed after
  construction (spec \<section>3, lifecycle): every run of assignments, \<open>off()\<close>
  and refreshes that completes changes the cached level and nothing else of
  the object.
\<close>

theorem run_ops_frame:
  assumes "run_ops l e ops = (Inr l', e')"
  shows "l' = l\<lparr>level := level l'\<rparr>"
  using assms
proof (induction l e ops rule: run_ops.induct)
  case (1 l e)
  then show ?case by simp
next
  case (2 l e v ops)
  then have "l' = (fst (level_setter v l e))\<lparr>level := level l'\<rparr>" by (simp split: prod.splits)
  then show ?case by (subst (asm) level_setter_frame) simp
next
  case (3 l e ops)
  then show ?case by (simp add: off_def split: prod.splits)
next
  case (4 l e ops)
  then obtain l1 e1 where a: "actual_level l e = (Inr l1, e1)" and r: "run_ops l1 e1 ops = (Inr l', e')"
    by (auto split: prod.splits sum.splits)
  have "l' = l1\<lparr>level := level l'\<rparr>" by (rule "4.IH" [OF a [symmetric] refl r])
  with actual_level_frame [OF a] show ?case by (metis lamp.update_convs(9) lamp.surjective)
qed

theorem run_ops_frame_witness:
  "run_ops scenario_lamp quiet_env [TurnOff, SetLevel (PInt 300)] =
     (Inr (scenario_lamp\<lparr>level := 254\<rparr>), snd (run_ops scenario_lamp quiet_env [TurnOff, SetLevel (PInt 300)])) \<and>
   scenario_lamp\<lparr>level := 254\<rparr> = scenario_lamp\<lparr>level := level (scenario_lamp\<lparr>level := 254\<rparr>)\<rparr>"
proof -
  have mx: "max_level scenario_lamp = PInt 254" and mn: "min_level scenario_lamp = PInt 86"
    by (simp_all add: scenario_lamp_def)
  have run: "run_ops scenario_lamp quiet_env [TurnOff, SetLevel (PInt 300)] =
     (Inr (scenario_lamp\<lparr>level := 254\<rparr>), snd (run_ops scenario_lamp quiet_env [TurnOff, SetLevel (PInt 300)]))"
    using mx mn by (simp add: off_def level_setter_nonzero Let_def split: prod.split)
  show ?thesis using run_ops_frame [OF run] run by simp
qed

end
