(* ===== verification/LampInit.thy ===== *)
theory LampInit
  imports Lamp
begin

text \<open>
  The constructor \<open>Lamp.__init__\<close> of src/dali2mqtt/lamp.py (the LampState
  component of the spec): how a lamp's bounds and first level are seeded
  from four bus queries, which failures it absorbs and which it lets
  through, and what it puts on the bus.
\<close>

section \<open>Construction\<close>

text \<open>
  \<open>Lamp.__init__\<close> (lines 29--59).  The level-name lookup can raise KeyError.
  The physical minimum is read inside \<open>try\<close>: a raising \<open>.value\<close> gives
  \<open>None\<close> and a warning.  The three other reads are unguarded, so their
  exceptions leave the constructor.  A non-int minimum falls back to the
  physical minimum when that is truthy, else to 86; a non-int maximum to 254.
  The actual level is assigned through the setter.
\<close>

definition lamp_init :: "string \<Rightarrow> string \<Rightarrow> string \<Rightarrow> address \<Rightarrow> env \<Rightarrow> (pyerror + lamp) \<times> env" where
  "lamp_init log_level drv friendly_name_arg addr e =
     (case set_log_level log_level e of
        Inl err \<Rightarrow> (Inl err, e)
      | Inr e1 \<Rightarrow>
     (let (r_phys, e2) = send (QueryPhysicalMinimum addr) e1;
          (min_phys, e3) =
            (case r_phys of
               Inr v \<Rightarrow> (v, e2)
             | Inl _ \<Rightarrow> (PNone, log_emit WARNING MinPhysicalLevelNone e2));
          (r_min, e4) = send (QueryMinLevel addr) e3
      in case r_min of Inl err \<Rightarrow> (Inl err, e4) | Inr mn \<Rightarrow>
     (let min_lvl = (if is_int mn then mn else if truthy min_phys then min_phys else PInt 86);
          (r_max, e5) = send (QueryMaxLevel addr) e4
      in case r_max of Inl err \<Rightarrow> (Inl err, e5) | Inr mx \<Rightarrow>
     (let max_lvl = (if is_int mx then mx else PInt 254);
          (r_act, e6) = send (QueryActualLevel addr) e5
      in case r_act of Inl err \<Rightarrow> (Inl err, e6) | Inr act \<Rightarrow>
     (let l0 = \<lparr>driver_name = drv, short_address = addr, friendly_name = friendly_name_arg,
                associated_lamps = None, device_name = slugify friendly_name_arg,
                min_physical_level = min_phys, min_level = min_lvl, max_level = max_lvl,
                level = 0\<rparr>;
          (l1, e7) = level_setter act l0 e6
      in (Inr l1, e7))))))"


section \<open>The state the constructor reaches\<close>

text \<open>
  For a script whose three unguarded reads answer values: the object before
  its level is assigned, and the world at that point (four queries on the
  bus, the threshold set, the warning when the physical-minimum read raised).
\<close>

definition seeded_lamp :: "string \<Rightarrow> address \<Rightarrow> string \<Rightarrow> pyval \<Rightarrow> pyval \<Rightarrow> pyval \<Rightarrow> lamp" where
  "seeded_lamp drv addr fname phys mn mx =
     \<lparr>driver_name = drv, short_address = addr, friendly_name = fname, associated_lamps = None,
      device_name = slugify fname, min_physical_level = phys,
      min_level = (if is_int mn then mn else if truthy phys then phys else PInt 86),
      max_level = (if is_int mx then mx else PInt 254), level = 0\<rparr>"

definition seeded_env :: "int \<Rightarrow> reply \<Rightarrow> address \<Rightarrow> reply list \<Rightarrow> env \<Rightarrow> env" where
  "seeded_env lvl rp addr rest e =
     (let e1 = e\<lparr>logger_level := lvl,
                 sent := sent e @ [QueryPhysicalMinimum addr, QueryMinLevel addr, QueryMaxLevel addr,
                                   QueryActualLevel addr],
                 replies := rest\<rparr>
      in case rp of Inr _ \<Rightarrow> e1 | Inl _ \<Rightarrow> log_emit WARNING MinPhysicalLevelNone e1)"

section \<open>Normal forms\<close>

lemma lamp_init_success:
  assumes "map_of ALL_SUPPORTED_LOG_LEVELS name = Some lvl"
      and "replies e = rp # Inr mn # Inr mx # Inr act # rest"
  shows "lamp_init name drv fname addr e =
    (let l0 = seeded_lamp drv addr fname (case rp of Inr v \<Rightarrow> v | Inl _ \<Rightarrow> PNone) mn mx;
         e0 = seeded_env lvl rp addr rest e
     in (Inr (fst (level_setter act l0 e0)), snd (level_setter act l0 e0)))"
  using assms
  by (cases e; cases rp)
     (simp_all add: lamp_init_def set_log_level_def send_def log_emit_def Let_def seeded_lamp_def
        seeded_env_def split: prod.split)

lemma lamp_init_Inr_shape:
  assumes "lamp_init name drv fname addr e = (Inr l, e')"
  obtains lvl rp mn mx act rest where "map_of ALL_SUPPORTED_LOG_LEVELS name = Some lvl"
    and "replies e = rp # Inr mn # Inr mx # Inr act # rest"
  using assms
  by (cases e)
     (auto simp: lamp_init_def set_log_level_def send_def Let_def
        split: option.splits list.splits sum.splits if_splits prod.splits)

lemma seeded_lamp_fields [simp]:
  "short_address (seeded_lamp drv addr fname phys mn mx) = addr"
  "associated_lamps (seeded_lamp drv addr fname phys mn mx) = None"
  "device_name (seeded_lamp drv addr fname phys mn mx) = slugify fname"
  "min_physical_level (seeded_lamp drv addr fname phys mn mx) = phys"
  "min_level (seeded_lamp drv addr fname phys mn mx) =
     (if is_int mn then mn else if truthy phys then phys else PInt 86)"
  "max_level (seeded_lamp drv addr fname phys mn mx) = (if is_int mx then mx else PInt 254)"
  by (simp_all add: seeded_lamp_def)

lemma seeded_env_sent [simp]:
  "sent (seeded_env lvl rp addr rest e) =
     sent e @ [QueryPhysicalMinimum addr, QueryMinLevel addr, QueryMaxLevel addr, QueryActualLevel addr]"
  by (simp add: seeded_env_def Let_def split: sum.split)


lemma lamp_init_result:
  assumes "lamp_init name drv fname addr e = (Inr l, e')"
  obtains lvl rp mn mx act rest
  where "l = fst (level_setter act (seeded_lamp drv addr fname (case rp of Inr v \<Rightarrow> v | Inl _ \<Rightarrow> PNone) mn mx)
                    (seeded_env lvl rp addr rest e))"
proof -
  obtain lvl rp mn mx act rest where lv: "map_of ALL_SUPPORTED_LOG_LEVELS name = Some lvl"
    and r: "replies e = rp # Inr mn # Inr mx # Inr act # rest"
    using lamp_init_Inr_shape [OF assms] .
  from assms lamp_init_success [OF lv r] show ?thesis
    by (intro that [of act rp mn mx lvl rest]) (simp add: Let_def)
qed

lemma lamp_init_device_name: "lamp_init name drv fname addr e = (Inr l, e') \<Longrightarrow> device_name l = slugify fname"
  by (erule lamp_init_result) simp

lemma lamp_init_friendly_name: "lamp_init name drv fname addr e = (Inr l, e') \<Longrightarrow> friendly_name l = fname"
  by (erule lamp_init_result) (simp add: seeded_lamp_def)

lemma lamp_init_max_level: "lamp_init name drv fname addr e = (Inr l, e') \<Longrightarrow> \<exists>m. max_level l = PInt m"
  by (erule lamp_init_result) (auto simp: seeded_lamp_def)

section \<open>Properties of the constructor\<close>

text \<open>
  C9. Construction from four answered reads (spec \<section>4.2): the physical
  minimum is kept as read; a non-int minimum falls back to the physical
  minimum when that is truthy and to 86 otherwise (so a physical minimum of 0
  also gives 86); a non-int maximum falls back to 254; the first level is the
  actual level passed through the setter's clamp, and 0 for a non-int answer.
\<close>

theorem lamp_init_fallbacks:
  assumes "map_of ALL_SUPPORTED_LOG_LEVELS name = Some lvl"
      and "replies e = Inr phys # Inr mn # Inr mx # Inr act # rest"
  shows "\<exists>l e'. lamp_init name drv fname addr e = (Inr l, e') \<and>
           min_physical_level l = phys \<and>
           min_level l = (if is_int mn then mn else if truthy phys then phys else PInt 86) \<and>
           max_level l = (if is_int mx then mx else PInt 254) \<and>
           level l = (case act of PInt a \<Rightarrow> if a = 0 then 0 else clamp_int (min_level l) (max_level l) a
                                 | _ \<Rightarrow> 0)"
proof -
  let ?lamp0 = "seeded_lamp drv addr fname phys mn mx" and ?env0 = "seeded_env lvl (Inr phys) addr rest e"
  have "lamp_init name drv fname addr e =
          (Inr (fst (level_setter act ?lamp0 ?env0)), snd (level_setter act ?lamp0 ?env0))"
    using lamp_init_success [OF assms] by (simp add: Let_def)
  then show ?thesis by (simp add: level_setter_level split: pyval.split)
qed

theorem lamp_init_fallbacks_witness:
  "map_of ALL_SUPPORTED_LOG_LEVELS ''info'' = Some 20 \<and>
   replies (quiet_env\<lparr>replies := [Inr (PInt 0), Inr (PStr ''MASK''), Inr (PStr ''MASK''), Inr (PStr ''MASK'')]\<rparr>) =
     [Inr (PInt 0), Inr (PStr ''MASK''), Inr (PStr ''MASK''), Inr (PStr ''MASK'')] \<and>
   (\<exists>l e'. lamp_init ''info'' ''HassebDALIUSBDriver'' ''Hall'' (Short 1)
             (quiet_env\<lparr>replies := [Inr (PInt 0), Inr (PStr ''MASK''), Inr (PStr ''MASK''), Inr (PStr ''MASK'')]\<rparr>) = (Inr l, e') \<and>
           min_level l = PInt 86 \<and> max_level l = PInt 254 \<and> level l = 0)"
proof -
  have lv: "map_of ALL_SUPPORTED_LOG_LEVELS ''info'' = Some 20"
    by (simp add: ALL_SUPPORTED_LOG_LEVELS_def WARNING_def DEBUG_def)
  show ?thesis
    using lamp_init_fallbacks [OF lv, of "quiet_env\<lparr>replies := [Inr (PInt 0), Inr (PStr ''MASK''), Inr (PStr ''MASK''), Inr (PStr ''MASK'')]\<rparr>"
        "PInt 0" "PStr ''MASK''" "PStr ''MASK''" "PStr ''MASK''" "[]" "''HassebDALIUSBDriver''" "''Hall''" "Short 1"]
    by (simp add: lv) blast
qed

text \<open>
  C10. A raising physical-minimum read is absorbed: construction succeeds
  with \<open>min_physical_level = None\<close>, and with the logger at warning level or
  below the warning is recorded.
\<close>

theorem lamp_init_physical_minimum_tolerated:
  assumes "map_of ALL_SUPPORTED_LOG_LEVELS name = Some lvl" and "lvl \<le> WARNING"
      and "replies e = Inl err # Inr mn # Inr mx # Inr act # rest"
  shows "\<exists>l e'. lamp_init name drv fname addr e = (Inr l, e') \<and> min_physical_level l = PNone \<and>
           (WARNING, MinPhysicalLevelNone) \<in> set (log_records e')"
proof -
  let ?lamp0 = "seeded_lamp drv addr fname PNone mn mx" and ?env0 = "seeded_env lvl (Inl err) addr rest e"
  have run: "lamp_init name drv fname addr e =
          (Inr (fst (level_setter act ?lamp0 ?env0)), snd (level_setter act ?lamp0 ?env0))"
    using lamp_init_success [OF assms(1,3)] by (simp add: Let_def)
  have "(WARNING, MinPhysicalLevelNone) \<in> set (log_records ?env0)"
    using assms(2) by (simp add: seeded_env_def log_emit_def)
  moreover obtain ys where "log_records (snd (level_setter act ?lamp0 ?env0)) = log_records ?env0 @ ys"
    using level_setter_log_prefix by blast
  ultimately show ?thesis using run by simp
qed

theorem lamp_init_physical_minimum_tolerated_witness:
  "map_of ALL_SUPPORTED_LOG_LEVELS ''debug'' = Some 10 \<and> (10::int) \<le> WARNING \<and>
   replies (quiet_env\<lparr>replies := [Inl ResponseError, Inr (PInt 100), Inr (PInt 254), Inr (PInt 0)]\<rparr>) =
     [Inl ResponseError, Inr (PInt 100), Inr (PInt 254), Inr (PInt 0)] \<and>
   (\<exists>l e'. lamp_init ''debug'' ''HassebDALIUSBDriver'' ''Hall'' (Short 1)
             (quiet_env\<lparr>replies := [Inl ResponseError, Inr (PInt 100), Inr (PInt 254), Inr (PInt 0)]\<rparr>) = (Inr l, e') \<and>
           min_physical_level l = PNone \<and> (WARNING, MinPhysicalLevelNone) \<in> set (log_records e'))"
proof -
  have lv: "map_of ALL_SUPPORTED_LOG_LEVELS ''debug'' = Some 10"
    by (simp add: ALL_SUPPORTED_LOG_LEVELS_def WARNING_def DEBUG_def)
  have w: "(10::int) \<le> WARNING" by (simp add: WARNING_def)
  show ?thesis
    using lamp_init_physical_minimum_tolerated [OF lv w,
        of "quiet_env\<lparr>replies := [Inl ResponseError, Inr (PInt 100), Inr (PInt 254), Inr (PInt 0)]\<rparr>"
        ResponseError "PInt 100" "PInt 254" "PInt 0" "[]" "''HassebDALIUSBDriver''" "''Hall''" "Short 1"]
    by (simp add: lv w)
qed

text \<open>
  C11. The three other reads are not guarded: when reading the minimum, the
  maximum or the actual level raises, the constructor raises the same
  exception (spec \<section>4.2 says construction never raises for a single failed
  sub-read).
\<close>

theorem lamp_init_unguarded_reads_raise:
  assumes "map_of ALL_SUPPORTED_LOG_LEVELS name = Some lvl"
      and "replies e = r1 # Inl err # rest \<or> replies e = r1 # Inr v2 # Inl err # rest \<or>
           replies e = r1 # Inr v2 # Inr v3 # Inl err # rest"
  shows "fst (lamp_init name drv fname addr e) = Inl err"
  using assms
  by (cases e; cases r1) (auto simp: lamp_init_def set_log_level_def send_def Let_def)

theorem lamp_init_unguarded_reads_raise_witness:
  "map_of ALL_SUPPORTED_LOG_LEVELS ''info'' = Some 20 \<and>
   fst (lamp_init ''info'' ''HassebDALIUSBDriver'' ''Hall'' (Short 1)
          (quiet_env\<lparr>replies := [Inr (PInt 0), Inl MissingResponse]\<rparr>)) = Inl MissingResponse"
proof -
  have lv: "map_of ALL_SUPPORTED_LOG_LEVELS ''info'' = Some 20"
    by (simp add: ALL_SUPPORTED_LOG_LEVELS_def WARNING_def DEBUG_def)
  show ?thesis
    using lamp_init_unguarded_reads_raise [OF lv,
        of "quiet_env\<lparr>replies := [Inr (PInt 0), Inl MissingResponse]\<rparr>" "Inr (PInt 0)" MissingResponse "[]"]
    by (simp add: lv quiet_env_def)
qed

text \<open>
  C12. Construction writes to the bus: when the actual-level read answers an
  int, the constructor sends a DAPC with the (clamped) level right after the
  four queries, because it assigns \<open>self.level\<close> through the setter (spec
  \<section>4.2 names no side effect beyond the reads).
\<close>

theorem lamp_init_sends_dapc:
  assumes "map_of ALL_SUPPORTED_LOG_LEVELS name = Some lvl"
      and "replies e = rp # Inr mn # Inr mx # Inr (PInt a) # rest"
  shows "\<exists>l e'. lamp_init name drv fname addr e = (Inr l, e') \<and>
           sent e' = sent e @ [QueryPhysicalMinimum addr, QueryMinLevel addr, QueryMaxLevel addr,
                               QueryActualLevel addr, DAPC addr (level l)]"
proof -
  let ?lamp0 = "seeded_lamp drv addr fname (case rp of Inr v \<Rightarrow> v | Inl _ \<Rightarrow> PNone) mn mx"
    and ?env0 = "seeded_env lvl rp addr rest e"
  have "lamp_init name drv fname addr e =
          (Inr (fst (level_setter (PInt a) ?lamp0 ?env0)), snd (level_setter (PInt a) ?lamp0 ?env0))"
    using lamp_init_success [OF assms] by (simp add: Let_def)
  then show ?thesis by (simp add: level_setter_sent)
qed

theorem lamp_init_sends_dapc_witness:
  "map_of ALL_SUPPORTED_LOG_LEVELS ''info'' = Some 20 \<and>
   replies (quiet_env\<lparr>replies := [Inr (PInt 0), Inr (PInt 100), Inr (PInt 254), Inr (PInt 20)]\<rparr>) =
     [Inr (PInt 0), Inr (PInt 100), Inr (PInt 254), Inr (PInt 20)] \<and>
   (\<exists>l e'. lamp_init ''info'' ''HassebDALIUSBDriver'' ''Hall'' (Short 1)
             (quiet_env\<lparr>replies := [Inr (PInt 0), Inr (PInt 100), Inr (PInt 254), Inr (PInt 20)]\<rparr>) = (Inr l, e') \<and>
           sent e' = [QueryPhysicalMinimum (Short 1), QueryMinLevel (Short 1), QueryMaxLevel (Short 1),
                      QueryActualLevel (Short 1), DAPC (Short 1) (level l)])"
proof -
  have lv: "map_of ALL_SUPPORTED_LOG_LEVELS ''info'' = Some 20"
    by (simp add: ALL_SUPPORTED_LOG_LEVELS_def WARNING_def DEBUG_def)
  show ?thesis
    using lamp_init_sends_dapc [OF lv,
        of "quiet_env\<lparr>replies := [Inr (PInt 0), Inr (PInt 100), Inr (PInt 254), Inr (PInt 20)]\<rparr>"
        "Inr (PInt 0)" "PInt 100" "PInt 254" 20 "[]" "''HassebDALIUSBDriver''" "''Hall''" "Short 1"]
    by (simp add: lv quiet_env_def)
qed



text \<open>
  C13. Shape of a constructed object: the maximum is always an int (the read
  value or the fallback 254), the address and driver are the arguments, the
  device name is the slug of the friendly name, and no member list exists yet.
\<close>

theorem lamp_init_object_shape:
  assumes "lamp_init name drv fname addr e = (Inr l, e')"
  shows "is_int (max_level l) \<and> short_address l = addr \<and> driver_name l = drv \<and>
         associated_lamps l = None \<and> device_name l = slugify fname"
  using assms by (elim lamp_init_result) (auto simp: seeded_lamp_def)

theorem lamp_init_object_shape_witness:
  "\<exists>l e'. lamp_init ''info'' ''HassebDALIUSBDriver'' ''Hall'' (Short 1)
           (quiet_env\<lparr>replies := [Inr (PInt 0), Inr (PInt 100), Inr (PStr ''MASK''), Inr (PInt 20)]\<rparr>) = (Inr l, e') \<and>
         is_int (max_level l) \<and> short_address l = Short 1 \<and> associated_lamps l = None"
proof -
  let ?e = "quiet_env\<lparr>replies := [Inr (PInt 0), Inr (PInt 100), Inr (PStr ''MASK''), Inr (PInt 20)]\<rparr>"
  have lv: "map_of ALL_SUPPORTED_LOG_LEVELS ''info'' = Some 20"
    by (simp add: ALL_SUPPORTED_LOG_LEVELS_def WARNING_def DEBUG_def)
  have r: "replies ?e = Inr (PInt 0) # Inr (PInt 100) # Inr (PStr ''MASK'') # Inr (PInt 20) # []"
    by simp
  obtain l e' where run: "lamp_init ''info'' ''HassebDALIUSBDriver'' ''Hall'' (Short 1) ?e = (Inr l, e')"
    using lamp_init_success [OF lv r] by (simp add: Let_def)
  show ?thesis using run lamp_init_object_shape [OF run] by blast
qed

text \<open>
  C14. An unknown log-level name makes the constructor raise KeyError before
  it sends anything: the world is returned unchanged.
\<close>

theorem lamp_init_unknown_log_level:
  assumes "map_of ALL_SUPPORTED_LOG_LEVELS name = None"
  shows "lamp_init name drv fname addr e = (Inl (KeyError name), e)"
  using assms by (simp add: lamp_init_def set_log_level_def)

theorem lamp_init_unknown_log_level_witness:
  "map_of ALL_SUPPORTED_LOG_LEVELS ''verbose'' = None \<and>
   lamp_init ''verbose'' ''HassebDALIUSBDriver'' ''Hall'' (Short 1) quiet_env =
     (Inl (KeyError ''verbose''), quiet_env)"
proof -
  have k: "map_of ALL_SUPPORTED_LOG_LEVELS ''verbose'' = None"
    by (simp add: ALL_SUPPORTED_LOG_LEVELS_def)
  show ?thesis using lamp_init_unknown_log_level [OF k] k by simp
qed


text \<open>
  C15. The device name the constructor derives (\<open>slugify(friendly_name)\<close>,
  line 42) is a slug (only lower-case letters, digits and single \<open>-\<close>
  separators, none first or last), it keeps the letters and digits of the
  friendly name, lower-cased, in order and nothing else, and the slugs are
  exactly the fixed points of \<open>slugify\<close>, so recomputing the device name from
  a derived one gives it back (spec \<section>3).
\<close>

theorem lamp_init_device_name_slug:
  assumes "lamp_init name drv fname addr e = (Inr l, e')"
  shows "is_slug (device_name l) \<and>
         filter slug_alnum (device_name l) = filter slug_alnum (map lower_ascii (friendly_name l)) \<and>
         (slugify t = t \<longleftrightarrow> is_slug t)"
  using slugify_characterised [of fname t]
  by (simp add: lamp_init_device_name [OF assms] lamp_init_friendly_name [OF assms])

theorem lamp_init_device_name_slug_witness:
  "\<exists>l e'. lamp_init ''info'' ''HassebDALIUSBDriver'' ''Kitchen Light'' (Short 1)
           (quiet_env\<lparr>replies := [Inr (PInt 0), Inr (PInt 100), Inr (PStr ''MASK''), Inr (PInt 20)]\<rparr>) = (Inr l, e') \<and>
         is_slug (device_name l) \<and>
         filter slug_alnum (device_name l) = filter slug_alnum (map lower_ascii (friendly_name l)) \<and>
         (slugify ''kitchen-light'' = ''kitchen-light'' \<longleftrightarrow> is_slug ''kitchen-light'')"
proof -
  let ?e = "quiet_env\<lparr>replies := [Inr (PInt 0), Inr (PInt 100), Inr (PStr ''MASK''), Inr (PInt 20)]\<rparr>"
  have lv: "map_of ALL_SUPPORTED_LOG_LEVELS ''info'' = Some 20"
    by (simp add: ALL_SUPPORTED_LOG_LEVELS_def WARNING_def DEBUG_def)
  have r: "replies ?e = Inr (PInt 0) # Inr (PInt 100) # Inr (PStr ''MASK'') # Inr (PInt 20) # []"
    by simp
  obtain l e' where run: "lamp_init ''info'' ''HassebDALIUSBDriver'' ''Kitchen Light'' (Short 1) ?e = (Inr l, e')"
    using lamp_init_success [OF lv r] by (simp add: Let_def)
  show ?thesis using run lamp_init_device_name_slug [OF run, of "''kitchen-light''"] by blast
qed

text \<open>
  C16. The device name does not identify a lamp: two lamps constructed from
  friendly names that differ only in letter case or in which
  non-alphanumeric characters separate their words get the same device name,
  and with it the same MQTT topics (spec \<section>9 leaves the collision policy
  open; the code has none).
\<close>

theorem lamp_init_device_name_collision:
  assumes "lamp_init name1 drv1 a addr1 e1 = (Inr l1, e1')"
      and "lamp_init name2 drv2 b addr2 e2 = (Inr l2, e2')"
      and "map slug_class a = map slug_class b"
  shows "device_name l1 = device_name l2"
  using slugify_collisions [OF assms(3)]
  by (simp add: lamp_init_device_name [OF assms(1)] lamp_init_device_name [OF assms(2)])

theorem lamp_init_device_name_collision_witness:
  "\<exists>l1 e1' l2 e2'.
     lamp_init ''info'' ''HassebDALIUSBDriver'' ''Kitchen Light'' (Short 1)
       (quiet_env\<lparr>replies := [Inr (PInt 0), Inr (PInt 100), Inr (PStr ''MASK''), Inr (PInt 20)]\<rparr>) = (Inr l1, e1') \<and>
     lamp_init ''info'' ''HassebDALIUSBDriver'' ''kitchen-light'' (Short 2)
       (quiet_env\<lparr>replies := [Inr (PInt 0), Inr (PInt 100), Inr (PStr ''MASK''), Inr (PInt 20)]\<rparr>) = (Inr l2, e2') \<and>
     friendly_name l1 \<noteq> friendly_name l2 \<and> device_name l1 = device_name l2"
proof -
  let ?e = "quiet_env\<lparr>replies := [Inr (PInt 0), Inr (PInt 100), Inr (PStr ''MASK''), Inr (PInt 20)]\<rparr>"
  have lv: "map_of ALL_SUPPORTED_LOG_LEVELS ''info'' = Some 20"
    by (simp add: ALL_SUPPORTED_LOG_LEVELS_def WARNING_def DEBUG_def)
  have r: "replies ?e = Inr (PInt 0) # Inr (PInt 100) # Inr (PStr ''MASK'') # Inr (PInt 20) # []"
    by simp
  obtain l1 e1' where run1: "lamp_init ''info'' ''HassebDALIUSBDriver'' ''Kitchen Light'' (Short 1) ?e = (Inr l1, e1')"
    using lamp_init_success [OF lv r] by (simp add: Let_def)
  obtain l2 e2' where run2: "lamp_init ''info'' ''HassebDALIUSBDriver'' ''kitchen-light'' (Short 2) ?e = (Inr l2, e2')"
    using lamp_init_success [OF lv r] by (simp add: Let_def)
  have c: "map slug_class ''Kitchen Light'' = map slug_class ''kitchen-light''" by code_simp
  have "friendly_name l1 \<noteq> friendly_name l2"
    by (simp add: lamp_init_friendly_name [OF run1] lamp_init_friendly_name [OF run2])
  then show ?thesis using run1 run2 lamp_init_device_name_collision [OF run1 run2 c] by blast
qed

end
