(* ===== verification/LegacyLamp.thy ===== *)
theory LegacyLamp
  imports Lamp
begin

text \<open>
  The legacy class \<open>Lamp\<close> of src/lamp.py.  Its constructor takes the bounds
  and the level as arguments instead of reading them from the bus, and its
  level setter raises ValueError for a non-zero level outside
  \<open>[min_level, max_level]\<close> instead of clamping.  The object is the same
  record \<^typ>\<open>lamp\<close> as the current class's: the bounds hold ints, and the
  legacy object has no member list (\<open>associated_lamps = None\<close>).
\<close>

section \<open>Operations\<close>

text \<open>The getter of \<open>level\<close> (lines 74--77): the private \<open>self.__level\<close>.\<close>

definition legacy_level_get :: "lamp \<Rightarrow> int" where
  "legacy_level_get l = level l"

text \<open>
  The setter of \<open>level\<close> (lines 79--87).  The chained comparison
  \<open>min_level <= value <= max_level\<close> is \<open>min_level <= value and value <=
  max_level\<close>: a non-int minimum raises TypeError at once; when
  \<open>min_level <= value\<close> fails, the maximum is never compared, and the value
  is rejected with ValueError unless it is 0; otherwise a non-int maximum
  raises TypeError, and an int one decides with the same ValueError test.  An
  accepted value is stored, sent as DAPC and logged.  The value itself is an
  int (the constructor's argument, as the model types it).
\<close>

definition legacy_level_setter :: "int \<Rightarrow> lamp \<Rightarrow> env \<Rightarrow> (pyerror + lamp) \<times> env" where
  "legacy_level_setter value l e =
     (let accept =
        (let l1 = l\<lparr>level := value\<rparr>;
             e1 = snd (send (DAPC (short_address l1) (legacy_level_get l1)) e)
         in (Inr l1, log_emit DEBUG (SetBrightness (friendly_name l1) (legacy_level_get l1)) e1))
      in case min_level l of
           PInt mn \<Rightarrow>
             (if \<not> mn \<le> value then (if value \<noteq> 0 then (Inl ValueError, e) else accept)
              else (case max_level l of
                      PInt mx \<Rightarrow> (if \<not> value \<le> mx \<and> value \<noteq> 0 then (Inl ValueError, e) else accept)
                    | _ \<Rightarrow> (Inl TypeError, e)))
         | _ \<Rightarrow> (Inl TypeError, e))"

text \<open>
  \<open>Lamp.__init__\<close> (lines 20--40): the attributes are assigned, then
  \<open>self.level = level\<close> runs the setter (which may raise, or send a DAPC),
  and only then is the log level looked up, which may raise KeyError after
  the DAPC went out.
\<close>

definition legacy_init ::
  "string \<Rightarrow> string \<Rightarrow> string \<Rightarrow> address \<Rightarrow> int \<Rightarrow> int \<Rightarrow> int \<Rightarrow> int \<Rightarrow> env \<Rightarrow> (pyerror + lamp) \<times> env" where
  "legacy_init log_level drv fname addr min_phys mn lvl mx e =
     (let l0 = \<lparr>driver_name = drv, short_address = addr, friendly_name = fname,
                associated_lamps = None, device_name = slugify fname,
                min_physical_level = PInt min_phys, min_level = PInt mn, max_level = PInt mx,
                level = 0\<rparr>
      in case legacy_level_setter lvl l0 e of
           (Inl err, e1) \<Rightarrow> (Inl err, e1)
         | (Inr l1, e1) \<Rightarrow>
             (case set_log_level log_level e1 of
                Inl err \<Rightarrow> (Inl err, e1)
              | Inr e2 \<Rightarrow> (Inr l1, e2)))"

section \<open>Normal forms\<close>

lemma legacy_level_setter_accept:
  assumes "min_level l = PInt mn" and "max_level l = PInt mx" and "mn \<le> v \<and> v \<le> mx \<or> v = 0"
  shows "legacy_level_setter v l e =
           (Inr (l\<lparr>level := v\<rparr>),
            log_emit DEBUG (SetBrightness (friendly_name l) v) (e\<lparr>sent := sent e @ [DAPC (short_address l) v]\<rparr>))"
  using assms by (auto simp: legacy_level_setter_def legacy_level_get_def Let_def)


text \<open>
  Log order in the legacy constructor: the setter logs its debug record before
  \<open>setLevel\<close> runs, so for the first lamp after import, constructed with
  \<open>"debug"\<close>, that record is dropped by the module logger's initial
  WARNING threshold.
\<close>

lemma legacy_init_first_debug_dropped:
  assumes "mn \<le> lvl \<and> lvl \<le> mx \<or> lvl = 0"
  shows "fst (legacy_init ''debug'' drv fname addr mp mn lvl mx (module_env rs)) \<noteq> Inl (KeyError ''debug'') \<and>
         logger_level (snd (legacy_init ''debug'' drv fname addr mp mn lvl mx (module_env rs))) = DEBUG \<and>
         log_records (snd (legacy_init ''debug'' drv fname addr mp mn lvl mx (module_env rs))) = []"
  using assms
  by (simp add: legacy_init_def legacy_level_setter_accept set_log_level_def module_env_def
                ALL_SUPPORTED_LOG_LEVELS_def log_emit_def DEBUG_def WARNING_def)

section \<open>The legacy setter against the current one\<close>

text \<open>
  C17. On requests the legacy setter accepts (0, or within int bounds), the
  legacy and the current setter agree: same object, same bus command, same
  log record.
\<close>

theorem legacy_setter_agrees_in_range:
  assumes "min_level l = PInt mn" and "max_level l = PInt mx" and "mn \<le> v \<and> v \<le> mx \<or> v = 0"
  shows "legacy_level_setter v l e = (Inr (fst (level_setter (PInt v) l e)), snd (level_setter (PInt v) l e))"
proof (cases "v = 0")
  case True
  with assms show ?thesis by (simp add: legacy_level_setter_accept level_setter_zero)
next
  case False
  with assms(3) have "within_bounds (min_level l) (max_level l) v"
    using assms(1,2) by (simp add: within_bounds_def)
  then have "clamp_int (min_level l) (max_level l) v = v" by (rule clamp_int_fix)
  with False assms show ?thesis by (simp add: legacy_level_setter_accept level_setter_nonzero Let_def)
qed

theorem legacy_setter_agrees_in_range_witness:
  "min_level scenario_lamp = PInt 86 \<and> max_level scenario_lamp = PInt 254 \<and> ((86::int) \<le> 150 \<and> (150::int) \<le> 254 \<or> (150::int) = 0) \<and>
   legacy_level_setter 150 scenario_lamp quiet_env =
     (Inr (fst (level_setter (PInt 150) scenario_lamp quiet_env)), snd (level_setter (PInt 150) scenario_lamp quiet_env))"
proof -
  have mn: "min_level scenario_lamp = PInt 86" and mx: "max_level scenario_lamp = PInt 254"
    by (simp_all add: scenario_lamp_def)
  show ?thesis using legacy_setter_agrees_in_range [OF mn mx, of 150 quiet_env] mn mx by simp
qed

text \<open>
  C18. The current setter refines the legacy one: with ordered int bounds it
  behaves as the legacy setter given the clamped request, so it does
  everything the legacy setter does on the value the spec's clamp policy
  chooses, and never raises.
\<close>

theorem setter_is_legacy_on_clamped:
  assumes "min_level l = PInt mn" and "max_level l = PInt mx" and "mn \<le> mx"
  shows "legacy_level_setter (clamp_level mn mx v) l e =
           (Inr (fst (level_setter (PInt v) l e)), snd (level_setter (PInt v) l e))"
proof (cases "v = 0")
  case True
  with assms show ?thesis by (simp add: clamp_level_def legacy_level_setter_accept level_setter_zero)
next
  case False
  with assms have c: "clamp_int (min_level l) (max_level l) v = clamp_level mn mx v"
    by (simp add: clamp_level_def)
  from assms(3) have "mn \<le> clamp_level mn mx v \<and> clamp_level mn mx v \<le> mx \<or> clamp_level mn mx v = 0"
    by (simp add: clamp_level_def)
  with assms(1,2) False c show ?thesis
    by (simp add: legacy_level_setter_accept level_setter_nonzero Let_def)
qed

theorem setter_is_legacy_on_clamped_witness:
  "min_level scenario_lamp = PInt 86 \<and> max_level scenario_lamp = PInt 254 \<and> (86::int) \<le> 254 \<and>
   legacy_level_setter (clamp_level 86 254 50) scenario_lamp quiet_env =
     (Inr (fst (level_setter (PInt 50) scenario_lamp quiet_env)), snd (level_setter (PInt 50) scenario_lamp quiet_env))"
proof -
  have mn: "min_level scenario_lamp = PInt 86" and mx: "max_level scenario_lamp = PInt 254"
    by (simp_all add: scenario_lamp_def)
  show ?thesis using setter_is_legacy_on_clamped [OF mn mx, of 50 quiet_env] mn mx by simp
qed

text \<open>
  C19. The two policies differ exactly outside the bounds: there the legacy
  setter raises ValueError and leaves object and bus untouched, while the
  current one commits one of the two bounds.
\<close>

theorem legacy_setter_rejects_out_of_range:
  assumes "min_level l = PInt mn" and "max_level l = PInt mx"
      and "\<not> (mn \<le> v \<and> v \<le> mx)" and "v \<noteq> 0"
  shows "legacy_level_setter v l e = (Inl ValueError, e) \<and>
         level (fst (level_setter (PInt v) l e)) \<in> {mn, mx}"
  using assms by (auto simp: legacy_level_setter_def legacy_level_get_def level_setter_level)

theorem legacy_setter_rejects_out_of_range_witness:
  "min_level scenario_lamp = PInt 86 \<and> max_level scenario_lamp = PInt 254 \<and> \<not> ((86::int) \<le> 50 \<and> (50::int) \<le> 254) \<and>
   (50::int) \<noteq> 0 \<and> legacy_level_setter 50 scenario_lamp quiet_env = (Inl ValueError, quiet_env) \<and>
   level (fst (level_setter (PInt 50) scenario_lamp quiet_env)) \<in> {86, 254}"
proof -
  have mn: "min_level scenario_lamp = PInt 86" and mx: "max_level scenario_lamp = PInt 254"
    by (simp_all add: scenario_lamp_def)
  show ?thesis using legacy_setter_rejects_out_of_range [OF mn mx, of 50 quiet_env] mn mx by simp
qed

text \<open>
  C20. The legacy constructor validates its log level last: with an unknown
  level name and an in-range level it raises KeyError after the DAPC for the
  level has already been sent (the current constructor raises before any
  traffic, C16).
\<close>

theorem legacy_init_dapc_before_keyerror:
  assumes "map_of ALL_SUPPORTED_LOG_LEVELS name = None" and "mn \<le> lvl \<and> lvl \<le> mx"
  shows "fst (legacy_init name drv fname addr mp mn lvl mx e) = Inl (KeyError name) \<and>
         sent (snd (legacy_init name drv fname addr mp mn lvl mx e)) = sent e @ [DAPC addr lvl]"
  using assms by (simp add: legacy_init_def legacy_level_setter_accept set_log_level_def)

theorem legacy_init_dapc_before_keyerror_witness:
  "map_of ALL_SUPPORTED_LOG_LEVELS ''verbose'' = None \<and> ((86::int) \<le> 150 \<and> (150::int) \<le> 254) \<and>
   fst (legacy_init ''verbose'' ''HassebDALIUSBDriver'' ''Hall'' (Short 1) 86 86 150 254 quiet_env) =
     Inl (KeyError ''verbose'') \<and>
   sent (snd (legacy_init ''verbose'' ''HassebDALIUSBDriver'' ''Hall'' (Short 1) 86 86 150 254 quiet_env)) =
     [DAPC (Short 1) 150]"
proof -
  have k: "map_of ALL_SUPPORTED_LOG_LEVELS ''verbose'' = None"
    by (simp add: ALL_SUPPORTED_LOG_LEVELS_def)
  have r: "(86::int) \<le> 150 \<and> (150::int) \<le> 254" by simp
  show ?thesis
    using legacy_init_dapc_before_keyerror [OF k r, of "''HassebDALIUSBDriver''" "''Hall''" "Short 1" 86 quiet_env] k r
    by (simp add: quiet_env_def)
qed

end
