(* ===== verification/Json.thy ===== *)
theory Json
  imports Prelude
begin

text \<open>
  \<open>json.dumps\<close> of Python's standard library, with its default arguments, on
  the values the discovery document holds: strings, ints, \<open>None\<close> and
  dictionaries with string keys in insertion order.  Library code, modelled
  from its documented behaviour: members separated by \<open>", "\<close>, keys from
  values by \<open>": "\<close>; with \<open>ensure_ascii\<close> a string keeps the printable
  ASCII characters other than \<open>"\<close> and \<open>\\\<close>, escapes those two and the
  named controls with a backslash, and every other character as
  \<open>\u00XX\<close> (characters are bytes here, read as Latin-1 code points).  The
  decoder \<open>json_unescape\<close> reads a string body up to its closing quote and
  returns the rest; \<open>json_read\<close> reads whole values with it, and
  \<open>json_loads (json_dumps j) = Some j\<close> is the round trip.
\<close>

datatype json = JStr string | JInt int | JNull | JObj "(string \<times> json) list"

section \<open>Encoding\<close>

definition hex_digit :: "nat \<Rightarrow> char" where
  "hex_digit n = (if n < 10 then char_of (48 + n) else char_of (87 + n))"

definition json_escape_char :: "char \<Rightarrow> string" where
  "json_escape_char c =
     (let n = (of_char c :: nat) in
      if c = CHR 0x22 then [CHR 0x5C, CHR 0x22]
      else if c = CHR 0x5C then [CHR 0x5C, CHR 0x5C]
      else if c = CHR 0x0A then [CHR 0x5C, CHR ''n'']
      else if c = CHR 0x0D then [CHR 0x5C, CHR ''r'']
      else if c = CHR 0x09 then [CHR 0x5C, CHR ''t'']
      else if c = CHR 0x08 then [CHR 0x5C, CHR ''b'']
      else if c = CHR 0x0C then [CHR 0x5C, CHR ''f'']
      else if 32 \<le> n \<and> n \<le> 126 then [c]
      else [CHR 0x5C, CHR ''u'', CHR ''0'', CHR ''0'', hex_digit (n div 16), hex_digit (n mod 16)])"

definition json_string :: "string \<Rightarrow> string" where
  "json_string s = CHR 0x22 # concat (map json_escape_char s) @ [CHR 0x22]"

fun json_dumps :: "json \<Rightarrow> string"
  and json_members :: "(string \<times> json) list \<Rightarrow> string" where
  "json_dumps (JStr s) = json_string s"
| "json_dumps (JInt i) = show_int i"
| "json_dumps JNull = ''null''"
| "json_dumps (JObj kvs) = CHR ''{'' # json_members kvs @ [CHR ''}'']"
| "json_members [] = []"
| "json_members [(k, v)] = json_string k @ '': '' @ json_dumps v"
| "json_members ((k, v) # kv # kvs) = json_string k @ '': '' @ json_dumps v @ '', '' @ json_members (kv # kvs)"

section \<open>Decoding a string body\<close>

definition hex_value :: "char \<Rightarrow> nat option" where
  "hex_value c =
     (let n = (of_char c :: nat) in
      if 48 \<le> n \<and> n \<le> 57 then Some (n - 48)
      else if 97 \<le> n \<and> n \<le> 102 then Some (n - 87)
      else None)"

fun json_unescape :: "string \<Rightarrow> (string \<times> string) option" where
  "json_unescape [] = None"
| "json_unescape (c # cs) =
     (if c = CHR 0x22 then Some ([], cs)
      else if c = CHR 0x5C then
        (case cs of
           [] \<Rightarrow> None
         | d # ds \<Rightarrow>
             (if d = CHR 0x22 \<or> d = CHR 0x5C then map_option (apfst (Cons d)) (json_unescape ds)
              else if d = CHR ''n'' then map_option (apfst (Cons (CHR 0x0A))) (json_unescape ds)
              else if d = CHR ''r'' then map_option (apfst (Cons (CHR 0x0D))) (json_unescape ds)
              else if d = CHR ''t'' then map_option (apfst (Cons (CHR 0x09))) (json_unescape ds)
              else if d = CHR ''b'' then map_option (apfst (Cons (CHR 0x08))) (json_unescape ds)
              else if d = CHR ''f'' then map_option (apfst (Cons (CHR 0x0C))) (json_unescape ds)
              else if d = CHR ''u'' then
                (case ds of
                   h1 # h2 # h3 # h4 # rest \<Rightarrow>
                     (case (hex_value h1, hex_value h2, hex_value h3, hex_value h4) of
                        (Some a1, Some a2, Some a3, Some a4) \<Rightarrow>
                          (let n = ((a1 * 16 + a2) * 16 + a3) * 16 + a4 in
                           if n < 256 then map_option (apfst (Cons (char_of n))) (json_unescape rest)
                           else None)
                      | _ \<Rightarrow> None)
                 | _ \<Rightarrow> None)
              else None))
      else map_option (apfst (Cons c)) (json_unescape cs))"


section \<open>Reading a document back\<close>

text \<open>
  A reader of the JSON that \<open>json.dumps\<close> writes, as a consumer of the
  discovery document (the hub) reads it: a value, or, after \<open>{\<close>, the
  members up to the closing \<open>}\<close>.  It is a \<open>partial_function\<close> in the
  option monad, so a reading that does not end is \<open>None\<close>; the round trip
  below proves that it ends, with the document, on every rendered value.
\<close>

datatype jmode = JValue | JMembers

definition json_int_read :: "string \<Rightarrow> (json \<times> string) option" where
  "json_int_read s =
     (let neg = (s \<noteq> [] \<and> hd s = CHR ''-'');
          ds0 = (if neg then tl s else s);
          ds = takeWhile is_digit ds0
      in if ds = [] then None
         else Some (JInt (if neg then - int (dec_val ds) else int (dec_val ds)), dropWhile is_digit ds0))"

partial_function (option) json_read :: "jmode \<Rightarrow> string \<Rightarrow> (json \<times> string) option" where
  "json_read m s =
     (case m of
        JValue \<Rightarrow>
          (case s of
             [] \<Rightarrow> None
           | c # r \<Rightarrow>
               (if c = CHR 0x22 then map_option (apfst JStr) (json_unescape r)
                else if c = CHR ''{'' then
                  (if r \<noteq> [] \<and> hd r = CHR ''}'' then Some (JObj [], tl r) else json_read JMembers r)
                else if take 4 s = ''null'' then Some (JNull, drop 4 s)
                else if c = CHR ''-'' \<or> is_digit c then json_int_read s
                else None))
      | JMembers \<Rightarrow>
          (case s of
             [] \<Rightarrow> None
           | c # r \<Rightarrow>
               (if c \<noteq> CHR 0x22 then None
                else
                  (case json_unescape r of
                     None \<Rightarrow> None
                   | Some (k, r1) \<Rightarrow>
                       (if take 2 r1 \<noteq> '': '' then None
                        else
                          Option.bind (json_read JValue (drop 2 r1)) (\<lambda>(v, r2).
                            if take 2 r2 = '', '' then
                              Option.bind (json_read JMembers (drop 2 r2)) (\<lambda>(obj, r3).
                                case obj of JObj kvs \<Rightarrow> Some (JObj ((k, v) # kvs), r3) | _ \<Rightarrow> None)
                            else if r2 \<noteq> [] \<and> hd r2 = CHR ''}'' then Some (JObj [(k, v)], tl r2)
                            else None))))))"

definition follow_ok :: "string \<Rightarrow> bool" where
  "follow_ok rest \<longleftrightarrow> (case rest of [] \<Rightarrow> True | c # _ \<Rightarrow> \<not> is_digit c)"

definition json_loads :: "string \<Rightarrow> json option" where
  "json_loads s = (case json_read JValue s of Some (j, []) \<Rightarrow> Some j | _ \<Rightarrow> None)"

section \<open>Round trip of the string encoding\<close>

lemma hex_value_hex_digit [simp]: "k < 16 \<Longrightarrow> hex_value (hex_digit k) = Some k"
  by (auto simp: hex_value_def hex_digit_def Let_def)

lemma hex_value_zero [simp]: "hex_value (CHR ''0'') = Some 0"
  by (simp add: hex_value_def)

lemma json_unescape_escape_char:
  "json_unescape (json_escape_char c @ t) = map_option (apfst (Cons c)) (json_unescape t)"
proof -
  let ?n = "of_char c :: nat"
  have lt: "?n < 256" by simp
  then have d: "?n div 16 < 16" and m: "?n mod 16 < 16" by linarith+
  have n: "((0 * 16 + 0) * 16 + ?n div 16) * 16 + ?n mod 16 = ?n" by (simp add: mult.commute)
  show ?thesis
    using d m n lt by (auto simp: json_escape_char_def Let_def)
qed

lemma json_unescape_string_body:
  "json_unescape (concat (map json_escape_char s) @ CHR 0x22 # rest) = Some (s, rest)"
  by (induction s) (simp_all add: json_unescape_escape_char)

lemma follow_ok_simps [simp]:
  "follow_ok []" "follow_ok (c # r) \<longleftrightarrow> \<not> is_digit c"
  by (simp_all add: follow_ok_def)

lemma digits_follow:
  assumes "follow_ok rest"
  shows "takeWhile is_digit (show_nat n @ rest) = show_nat n" and "dropWhile is_digit (show_nat n @ rest) = rest"
  using assms show_nat_digits [of _ n]
  by (cases rest; simp add: takeWhile_append2 dropWhile_append2 follow_ok_def)+

lemma json_int_read_show_int:
  "follow_ok rest \<Longrightarrow> json_int_read (show_int i @ rest) = Some (JInt i, rest)"
  using hd_show_nat [of "nat i"]
  by (auto simp: json_int_read_def show_int_def digits_follow Let_def)

lemma show_int_head: "\<exists>c r. show_int i @ rest = c # r \<and> (c = CHR ''-'' \<or> is_digit c)"
proof (cases "i < 0")
  case True
  then show ?thesis by (simp add: show_int_def)
next
  case False
  then obtain c r where "show_nat (nat i) = c # r" by (cases "show_nat (nat i)") auto
  moreover have "is_digit c" using show_nat_digits [of c "nat i"] calculation by simp
  ultimately show ?thesis using False by (simp add: show_int_def)
qed

lemma json_members_head: "kvs \<noteq> [] \<Longrightarrow> \<exists>r. json_members kvs = CHR 0x22 # r"
  by (cases kvs rule: json_members.cases) (auto simp: json_string_def)

lemma json_read_dumps:
  "follow_ok rest \<Longrightarrow> json_read JValue (json_dumps j @ rest) = Some (j, rest)"
  "kvs \<noteq> [] \<Longrightarrow> json_read JMembers (json_members kvs @ CHR ''}'' # rest) = Some (JObj kvs, rest)"
proof (induction j and kvs arbitrary: rest and rest rule: json_dumps_json_members.induct)
  case (1 s)
  then show ?case
    by (subst json_read.simps) (simp add: json_string_def json_unescape_string_body)
next
  case (2 i)
  obtain c r where cr: "show_int i @ rest = c # r" and c: "c = CHR ''-'' \<or> is_digit c"
    using show_int_head by blast
  have "c \<noteq> CHR 0x22" "c \<noteq> CHR ''{''" "c \<noteq> CHR ''n''"
    using c by (auto simp: is_digit_def)
  with c cr have "json_read JValue (show_int i @ rest) = json_int_read (show_int i @ rest)"
    by (subst json_read.simps) simp
  with "2.prems" show ?case by (simp add: json_int_read_show_int)
next
  case 3
  then show ?case by (subst json_read.simps) simp
next
  case (4 kvs)
  show ?case
  proof (cases "kvs = []")
    case True
    then show ?thesis by (subst json_read.simps) simp
  next
    case False
    then obtain r where "json_members kvs = CHR 0x22 # r" using json_members_head by blast
    with False "4.IH" show ?thesis by (subst json_read.simps) simp
  qed
next
  case 5
  then show ?case by simp
next
  case (6 k v)
  have "json_read JValue (json_dumps v @ CHR ''}'' # rest) = Some (v, CHR ''}'' # rest)"
    by (rule "6.IH") simp
  then show ?case
    by (subst json_read.simps) (simp add: json_string_def json_unescape_string_body)
next
  case (7 k v kv kvs)
  have "json_read JValue (json_dumps v @ '', '' @ json_members (kv # kvs) @ CHR ''}'' # rest) =
          Some (v, '', '' @ json_members (kv # kvs) @ CHR ''}'' # rest)"
    by (rule "7.IH"(1)) simp
  moreover have "json_read JMembers (json_members (kv # kvs) @ CHR ''}'' # rest) = Some (JObj (kv # kvs), rest)"
    by (rule "7.IH"(2)) simp
  ultimately show ?case
    by (subst json_read.simps) (simp add: json_string_def json_unescape_string_body)
qed

lemma json_loads_dumps: "json_loads (json_dumps j) = Some j"
  using json_read_dumps(1) [of "[]" j] by (simp add: json_loads_def)

end
