(* ===== verification/Discovery.thy ===== *)
theory Discovery
  imports Lamp Json
begin

text \<open>
  \<open>Lamp.gen_ha_config\<close>, the Home Assistant discovery document, in both
  versions of the class (src/dali2mqtt/lamp.py lines 61--89, src/lamp.py
  lines 42--72).  The dictionary literal is \<open>ha_config_doc\<close>, an association
  list in the literal's key order; the method returns its \<open>json.dumps\<close>
  (theory Json).  The topic templates and payloads come from
  \<open>dali2mqtt/consts.py\<close>, which is not under src/: they are modelled as the
  \<open>str.format\<close> results of the project's templates.  Two inputs of the
  document are not in the object: the text \<open>str(self.short_address)\<close> that
  python-dali's address classes render, and the package's
  \<open>__version__\<close>; both are parameters.
\<close>

section \<open>Topics and payloads (consts.py)\<close>

definition MQTT_STATE_TOPIC :: "string \<Rightarrow> string \<Rightarrow> string" where
  "MQTT_STATE_TOPIC base dn = base @ ''/'' @ dn @ ''/light/status''"

definition MQTT_COMMAND_TOPIC :: "string \<Rightarrow> string \<Rightarrow> string" where
  "MQTT_COMMAND_TOPIC base dn = base @ ''/'' @ dn @ ''/light/switch''"

definition MQTT_BRIGHTNESS_STATE_TOPIC :: "string \<Rightarrow> string \<Rightarrow> string" where
  "MQTT_BRIGHTNESS_STATE_TOPIC base dn = base @ ''/'' @ dn @ ''/light/brightness/status''"

definition MQTT_BRIGHTNESS_COMMAND_TOPIC :: "string \<Rightarrow> string \<Rightarrow> string" where
  "MQTT_BRIGHTNESS_COMMAND_TOPIC base dn = base @ ''/'' @ dn @ ''/light/brightness/set''"

definition MQTT_DALI2MQTT_STATUS :: "string \<Rightarrow> string" where
  "MQTT_DALI2MQTT_STATUS base = base @ ''/status''"

definition MQTT_AVAILABLE :: string where "MQTT_AVAILABLE = ''online''"
definition MQTT_NOT_AVAILABLE :: string where "MQTT_NOT_AVAILABLE = ''offline''"
definition MQTT_PAYLOAD_OFF :: string where "MQTT_PAYLOAD_OFF = ''OFF''"

text \<open>A Python value as \<open>json.dumps\<close> renders it.\<close>

fun py_json :: "pyval \<Rightarrow> json" where
  "py_json (PInt i) = JInt i"
| "py_json (PStr s) = JStr s"
| "py_json PNone = JNull"

section \<open>The document\<close>

definition ha_config_doc :: "(address \<Rightarrow> string) \<Rightarrow> string \<Rightarrow> lamp \<Rightarrow> string \<Rightarrow> (string \<times> json) list" where
  "ha_config_doc str_address version l mqtt_base_topic =
     [(''name'', JStr (friendly_name l)),
      (''obj_id'', JStr (''dali_light_'' @ device_name l)),
      (''uniq_id'', JStr (driver_name l @ ''_'' @ str_address (short_address l))),
      (''stat_t'', JStr (MQTT_STATE_TOPIC mqtt_base_topic (device_name l))),
      (''cmd_t'', JStr (MQTT_COMMAND_TOPIC mqtt_base_topic (device_name l))),
      (''pl_off'', JStr MQTT_PAYLOAD_OFF),
      (''bri_stat_t'', JStr (MQTT_BRIGHTNESS_STATE_TOPIC mqtt_base_topic (device_name l))),
      (''bri_cmd_t'', JStr (MQTT_BRIGHTNESS_COMMAND_TOPIC mqtt_base_topic (device_name l))),
      (''bri_scl'', py_json (max_level l)),
      (''on_cmd_type'', JStr ''brightness''),
      (''avty_t'', JStr (MQTT_DALI2MQTT_STATUS mqtt_base_topic)),
      (''pl_avail'', JStr MQTT_AVAILABLE),
      (''pl_not_avail'', JStr MQTT_NOT_AVAILABLE),
      (''device'', JObj
         [(''ids'', JStr ''dali2mqtt''),
          (''name'', JStr ''DALI Lights''),
          (''sw'', JStr (''dali2mqtt '' @ version)),
          (''mdl'', JStr (driver_name l)),
          (''mf'', JStr ''dali2mqtt'')])]"

definition gen_ha_config :: "(address \<Rightarrow> string) \<Rightarrow> string \<Rightarrow> lamp \<Rightarrow> string \<Rightarrow> string" where
  "gen_ha_config str_address version l mqtt_base_topic =
     json_dumps (JObj (ha_config_doc str_address version l mqtt_base_topic))"

text \<open>The legacy class's method, written out from src/lamp.py on its own.\<close>

definition legacy_ha_config_doc :: "(address \<Rightarrow> string) \<Rightarrow> string \<Rightarrow> lamp \<Rightarrow> string \<Rightarrow> (string \<times> json) list" where
  "legacy_ha_config_doc str_address version l mqtt_base_topic =
     [(''name'', JStr (friendly_name l)),
      (''obj_id'', JStr (''dali_light_'' @ device_name l)),
      (''uniq_id'', JStr (driver_name l @ ''_'' @ str_address (short_address l))),
      (''stat_t'', JStr (MQTT_STATE_TOPIC mqtt_base_topic (device_name l))),
      (''cmd_t'', JStr (MQTT_COMMAND_TOPIC mqtt_base_topic (device_name l))),
      (''pl_off'', JStr MQTT_PAYLOAD_OFF),
      (''bri_stat_t'', JStr (MQTT_BRIGHTNESS_STATE_TOPIC mqtt_base_topic (device_name l))),
      (''bri_cmd_t'', JStr (MQTT_BRIGHTNESS_COMMAND_TOPIC mqtt_base_topic (device_name l))),
      (''bri_scl'', py_json (max_level l)),
      (''on_cmd_type'', JStr ''brightness''),
      (''avty_t'', JStr (MQTT_DALI2MQTT_STATUS mqtt_base_topic)),
      (''pl_avail'', JStr MQTT_AVAILABLE),
      (''pl_not_avail'', JStr MQTT_NOT_AVAILABLE),
      (''device'', JObj
         [(''ids'', JStr ''dali2mqtt''),
          (''name'', JStr ''DALI Lights''),
          (''sw'', JStr (''dali2mqtt '' @ version)),
          (''mdl'', JStr (driver_name l)),
          (''mf'', JStr ''dali2mqtt'')])]"

definition legacy_gen_ha_config :: "(address \<Rightarrow> string) \<Rightarrow> string \<Rightarrow> lamp \<Rightarrow> string \<Rightarrow> string" where
  "legacy_gen_ha_config str_address version l mqtt_base_topic =
     json_dumps (JObj (legacy_ha_config_doc str_address version l mqtt_base_topic))"

text \<open>The part of each lamp topic after the device name, by document key.\<close>

definition topic_suffix :: "string \<Rightarrow> string" where
  "topic_suffix k =
     (if k = ''stat_t'' then ''light/status'' else if k = ''cmd_t'' then ''light/switch''
      else if k = ''bri_stat_t'' then ''light/brightness/status'' else ''light/brightness/set'')"

section \<open>Lemmas\<close>

lemma ha_config_doc_topic:
  "k \<in> {''stat_t'', ''cmd_t'', ''bri_stat_t'', ''bri_cmd_t''} \<Longrightarrow>
   map_of (ha_config_doc str_address version l base) k =
     Some (JStr (base @ CHR ''/'' # device_name l @ CHR ''/'' # topic_suffix k))"
  by (elim insertE emptyE)
     (simp_all add: ha_config_doc_def topic_suffix_def MQTT_STATE_TOPIC_def MQTT_COMMAND_TOPIC_def
      MQTT_BRIGHTNESS_STATE_TOPIC_def MQTT_BRIGHTNESS_COMMAND_TOPIC_def)

lemma ha_config_doc_avty:
  "map_of (ha_config_doc str_address version l base) ''avty_t'' = Some (JStr (base @ CHR ''/'' # ''status''))"
  by (simp add: ha_config_doc_def MQTT_DALI2MQTT_STATUS_def)

lemma ha_config_doc_bri_scl:
  "map_of (ha_config_doc str_address version l base) ''bri_scl'' = Some (py_json (max_level l))"
  by (simp add: ha_config_doc_def)

lemma topic_suffix_inj:
  "k1 \<in> {''stat_t'', ''cmd_t'', ''bri_stat_t'', ''bri_cmd_t''} \<Longrightarrow>
   k2 \<in> {''stat_t'', ''cmd_t'', ''bri_stat_t'', ''bri_cmd_t''} \<Longrightarrow>
   topic_suffix k1 = topic_suffix k2 \<Longrightarrow> k1 = k2"
  by (elim insertE emptyE) (simp_all add: topic_suffix_def)

section \<open>Properties of the discovery document\<close>

text \<open>
  C21. Both versions of the class render the same discovery document for the
  same object, driver rendering, version and base topic.
\<close>

theorem legacy_gen_ha_config_same:
  "legacy_gen_ha_config str_address version l base = gen_ha_config str_address version l base"
  by (simp add: legacy_gen_ha_config_def gen_ha_config_def legacy_ha_config_doc_def ha_config_doc_def)

text \<open>
  C33. What the hub reads: every discovery document is JSON that decodes (the
  reader, a partial function, returns on it) to an object with distinct keys
  carrying the fields of spec \<section>6 with their meanings: the friendly name,
  an object id from the device name, a unique id from the driver and the
  address, the four light topics under the base topic and the device name,
  the brightness scale from the maximum level, the availability topic and
  payloads, and a device block with distinct keys naming product, software
  version, model and manufacturer.
\<close>

theorem gen_ha_config_fields:
  "\<exists>kvs dev. json_loads (gen_ha_config str_address version l base) = Some (JObj kvs) \<and> distinct (map fst kvs) \<and>
     map_of kvs ''name'' = Some (JStr (friendly_name l)) \<and>
     map_of kvs ''obj_id'' = Some (JStr (''dali_light_'' @ device_name l)) \<and>
     map_of kvs ''uniq_id'' = Some (JStr (driver_name l @ ''_'' @ str_address (short_address l))) \<and>
     map_of kvs ''stat_t'' = Some (JStr (base @ ''/'' @ device_name l @ ''/light/status'')) \<and>
     map_of kvs ''cmd_t'' = Some (JStr (base @ ''/'' @ device_name l @ ''/light/switch'')) \<and>
     map_of kvs ''pl_off'' = Some (JStr ''OFF'') \<and>
     map_of kvs ''bri_stat_t'' = Some (JStr (base @ ''/'' @ device_name l @ ''/light/brightness/status'')) \<and>
     map_of kvs ''bri_cmd_t'' = Some (JStr (base @ ''/'' @ device_name l @ ''/light/brightness/set'')) \<and>
     map_of kvs ''bri_scl'' = Some (py_json (max_level l)) \<and>
     map_of kvs ''on_cmd_type'' = Some (JStr ''brightness'') \<and>
     map_of kvs ''avty_t'' = Some (JStr (base @ ''/status'')) \<and>
     map_of kvs ''pl_avail'' = Some (JStr ''online'') \<and>
     map_of kvs ''pl_not_avail'' = Some (JStr ''offline'') \<and>
     map_of kvs ''device'' = Some (JObj dev) \<and> distinct (map fst dev) \<and>
     map_of dev ''ids'' = Some (JStr ''dali2mqtt'') \<and>
     map_of dev ''name'' = Some (JStr ''DALI Lights'') \<and>
     map_of dev ''sw'' = Some (JStr (''dali2mqtt '' @ version)) \<and>
     map_of dev ''mdl'' = Some (JStr (driver_name l)) \<and>
     map_of dev ''mf'' = Some (JStr ''dali2mqtt'')"
proof (rule exI [of _ "ha_config_doc str_address version l base"], rule exI [of _ "[(''ids'', JStr ''dali2mqtt''), (''name'', JStr ''DALI Lights''),
                        (''sw'', JStr (''dali2mqtt '' @ version)), (''mdl'', JStr (driver_name l)),
                        (''mf'', JStr ''dali2mqtt'')]"], intro conjI)
  show "json_loads (gen_ha_config str_address version l base) = Some (JObj (ha_config_doc str_address version l base))"
    unfolding gen_ha_config_def by (rule json_loads_dumps)
qed (simp_all add: ha_config_doc_def MQTT_STATE_TOPIC_def MQTT_COMMAND_TOPIC_def MQTT_BRIGHTNESS_STATE_TOPIC_def
                   MQTT_BRIGHTNESS_COMMAND_TOPIC_def MQTT_DALI2MQTT_STATUS_def MQTT_AVAILABLE_def
                   MQTT_NOT_AVAILABLE_def MQTT_PAYLOAD_OFF_def)

end
