(* ===== verification/GroupMembers.thy ===== *)
theory GroupMembers
  imports Lamp
begin

text \<open>
  Group lamps (the GroupAggregator of the spec).  \<open>Lamp.add_associated_lamp\<close>
  appends a reference to another lamp object to the group's list; the members
  are shared, not copied, so an object is reached both directly and through
  every group that lists it.  The objects live in a heap from references to
  lamps, and a method call on a reference reads the object there and writes
  the updated object back.  The spec's invariant (\<section>3) that only group
  addresses hold a member list is \<open>groups_ok\<close>.
\<close>

type_synonym heap = "nat \<Rightarrow> lamp option"

text \<open>\<open>heap[g].add_associated_lamp(heap[m])\<close>: None when \<open>g\<close> is no object.\<close>

definition heap_add_member :: "heap \<Rightarrow> nat \<Rightarrow> nat \<Rightarrow> heap option" where
  "heap_add_member h g m =
     (case h g of None \<Rightarrow> None | Some l \<Rightarrow> Some (h(g \<mapsto> add_associated_lamp l m)))"

definition groups_ok :: "heap \<Rightarrow> bool" where
  "groups_ok h \<longleftrightarrow> (\<forall>r l. h r = Some l \<longrightarrow> associated_lamps l = None \<or> is_group l)"

section \<open>Lemmas\<close>

lemma add_associated_lamp_list:
  "associated_lamps (add_associated_lamp l m) =
     Some ((case associated_lamps l of None \<Rightarrow> [] | Some xs \<Rightarrow> xs) @ [m])"
  by (simp add: add_associated_lamp_def)

lemma add_associated_lamp_frame: "add_associated_lamp l m = l\<lparr>associated_lamps := associated_lamps (add_associated_lamp l m)\<rparr>"
  by (simp add: add_associated_lamp_def)

lemma is_group_add_associated [simp]: "is_group (add_associated_lamp l m) = is_group l"
  by (simp add: add_associated_lamp_def is_group_def)

section \<open>Properties of group membership\<close>

text \<open>
  C25. Members are kept in call order, duplicates included (spec \<section>4.5): a
  sequence of \<open>add_associated_lamp\<close> calls appends its references, in order,
  to the list there was (none at first).
\<close>

theorem add_associated_lamps_in_order:
  assumes "ms \<noteq> []"
  shows "associated_lamps (fold (\<lambda>m l. add_associated_lamp l m) ms l) =
           Some ((case associated_lamps l of None \<Rightarrow> [] | Some xs \<Rightarrow> xs) @ ms)"
  using assms
proof (induction ms arbitrary: l rule: rev_induct)
  case Nil
  then show ?case by simp
next
  case (snoc m ms)
  show ?case
  proof (cases "ms = []")
    case True
    then show ?thesis by (simp add: add_associated_lamp_list)
  next
    case False
    with snoc.IH show ?thesis by (simp add: add_associated_lamp_list)
  qed
qed

theorem add_associated_lamps_in_order_witness:
  "[7, 4, 7] \<noteq> ([] :: nat list) \<and>
   associated_lamps (fold (\<lambda>m l. add_associated_lamp l m) [7, 4, 7] (scenario_lamp\<lparr>short_address := Group 2\<rparr>)) =
     Some [7, 4, 7]"
proof -
  have n: "[7, 4, 7] \<noteq> ([] :: nat list)" by simp
  show ?thesis
    using add_associated_lamps_in_order [OF n, of "scenario_lamp\<lparr>short_address := Group 2\<rparr>"]
    by (simp add: scenario_lamp_def)
qed

text \<open>
  C26. \<open>add_associated_lamp\<close> does not check the address kind (spec \<section>4.5
  leaves it to the caller): adding a member keeps the heap invariant that
  only group lamps hold a member list exactly when the target is a group
  lamp.
\<close>

theorem heap_add_member_groups_ok:
  assumes "groups_ok h" and "h g = Some l" and "heap_add_member h g m = Some h'"
  shows "groups_ok h' \<longleftrightarrow> is_group l"
proof -
  from assms(2,3) have h': "h' = h(g \<mapsto> add_associated_lamp l m)"
    by (simp add: heap_add_member_def)
  have listed: "associated_lamps (add_associated_lamp l m) \<noteq> None"
    by (simp add: add_associated_lamp_list)
  show ?thesis
  proof
    assume "groups_ok h'"
    then have "associated_lamps (add_associated_lamp l m) = None \<or> is_group (add_associated_lamp l m)"
      unfolding groups_ok_def h' by (metis fun_upd_same)
    with listed show "is_group l" by auto
  next
    assume "is_group l"
    with assms(1) show "groups_ok h'"
      unfolding groups_ok_def h' by auto
  qed
qed

theorem heap_add_member_groups_ok_witness:
  "groups_ok ((\<lambda>_. None)(0 \<mapsto> scenario_lamp)) \<and> ((\<lambda>_. None)(0 \<mapsto> scenario_lamp)) 0 = Some scenario_lamp \<and>
   heap_add_member ((\<lambda>_. None)(0 \<mapsto> scenario_lamp)) 0 1 =
     Some ((\<lambda>_. None)(0 \<mapsto> add_associated_lamp scenario_lamp 1)) \<and>
   \<not> groups_ok ((\<lambda>_. None)(0 \<mapsto> add_associated_lamp scenario_lamp 1))"
proof -
  have ok: "groups_ok ((\<lambda>_. None)(0 \<mapsto> scenario_lamp))"
    by (simp add: groups_ok_def scenario_lamp_def)
  have at: "((\<lambda>_. None)(0 \<mapsto> scenario_lamp)) 0 = Some scenario_lamp" by simp
  have add: "heap_add_member ((\<lambda>_. None)(0 \<mapsto> scenario_lamp)) 0 1 =
               Some ((\<lambda>_. None)(0 \<mapsto> add_associated_lamp scenario_lamp 1))"
    by (simp add: heap_add_member_def)
  have "\<not> is_group scenario_lamp" by (simp add: scenario_lamp_def is_group_def)
  with heap_add_member_groups_ok [OF ok at add] ok at add show ?thesis by simp
qed

end
