(* ===== verification/LampStr.thy ===== *)
theory LampStr
  imports Lamp
begin

text \<open>
  \<open>Lamp.__str__\<close> (src/dali2mqtt/lamp.py lines 144--151), the line the
  daemon logs for each lamp, and a reader that takes the device name, the
  bus address and the level back out of it.  The f-string renders ints with
  \<open>str()\<close> (\<open>show_int\<close>, theory Prelude) and the bounds, which may be ints,
  strings or \<open>None\<close>, with \<open>py_str\<close>.
\<close>

section \<open>The rendering\<close>

text \<open>\<open>str(v)\<close> of the values a bound can hold.\<close>

fun py_str :: "pyval \<Rightarrow> string" where
  "py_str (PInt i) = show_int i"
| "py_str (PStr s) = s"
| "py_str PNone = ''None''"

text \<open>
  \<open>self.short_address.address if hasattr(self.short_address, "address")
  else self.short_address\<close>: python-dali's \<open>Short\<close> keeps its number in
  \<open>.address\<close>, its \<open>Group\<close> in \<open>.group\<close>, so a short address prints as its
  number and a group address falls to the else branch and prints as
  \<open>str(short_address)\<close>, python-dali's rendering, which is the parameter
  \<open>str_address\<close> (as in \<open>gen_ha_config\<close>).
\<close>

fun address_text :: "(address \<Rightarrow> string) \<Rightarrow> address \<Rightarrow> string" where
  "address_text str_address (Short n) = show_nat n"
| "address_text str_address (Group g) = str_address (Group g)"

definition lamp_str :: "(address \<Rightarrow> string) \<Rightarrow> lamp \<Rightarrow> string" where
  "lamp_str str_address l =
     (let addr = address_text str_address (short_address l) in
      device_name l @ '' - address: '' @ addr @ '', '' @
      ''actual brightness level: '' @ show_int (level_get l) @ '' (minimum: '' @ py_str (min_level l) @ '', '' @
      ''max: '' @ py_str (max_level l) @ '', physical minimum: '' @ py_str (min_physical_level l) @ '')'')"

section \<open>Reading the line back\<close>

text \<open>
  The reader splits at the first space (a slug holds none), skips the fixed
  text, and reads the address digits and the signed level digits.
\<close>

definition read_int :: "string \<Rightarrow> int" where
  "read_int s =
     (if s \<noteq> [] \<and> hd s = CHR ''-'' then - int (dec_val (takeWhile is_digit (tl s)))
      else int (dec_val (takeWhile is_digit s)))"

definition parse_lamp_str :: "string \<Rightarrow> string \<times> nat \<times> int" where
  "parse_lamp_str s =
     (let dn = takeWhile (\<lambda>c. c \<noteq> CHR '' '') s;
          r1 = drop (length dn + length '' - address: '') s;
          a = takeWhile is_digit r1;
          r2 = drop (length a + length '', actual brightness level: '') r1
      in (dn, dec_val a, read_int r2))"

section \<open>Lemmas\<close>

lemma read_int_show_int: "read_int (show_int i @ CHR '' '' # rest) = i"
  using hd_show_nat [of "nat i"] by (simp add: read_int_def show_int_def takeWhile_digits)

lemma takeWhile_not_space: "CHR '' '' \<notin> set d \<Longrightarrow> takeWhile (\<lambda>c. c \<noteq> CHR '' '') (d @ CHR '' '' # rest) = d"
  by (induction d) auto

lemma parse_lamp_str_shape:
  assumes "CHR '' '' \<notin> set dn"
  shows "parse_lamp_str (dn @ '' - address: '' @ show_nat a @ '', actual brightness level: '' @
                         show_int lv @ CHR '' '' # rest) = (dn, a, lv)"
proof -
  let ?r2 = "show_int lv @ CHR '' '' # rest"
  let ?r1 = "show_nat a @ '', actual brightness level: '' @ ?r2"
  let ?s = "dn @ '' - address: '' @ ?r1"
  have 1: "takeWhile (\<lambda>c. c \<noteq> CHR '' '') ?s = dn"
    using takeWhile_not_space [OF assms] by simp
  have 2: "drop (length dn + length '' - address: '') ?s = ?r1" by simp
  have 3: "takeWhile is_digit ?r1 = show_nat a" by (simp add: takeWhile_digits)
  have 4: "drop (length (show_nat a) + length '', actual brightness level: '') ?r1 = ?r2" by simp
  show ?thesis
    unfolding parse_lamp_str_def Let_def 1 2 3 4 read_int_show_int dec_val_show_nat ..
qed

section \<open>Properties of the rendering\<close>

text \<open>
  C27. The line \<open>__str__\<close> renders identifies a lamp on a short address: for
  an object whose device name is a slug (every object the constructors
  build), reading the line back gives its device name, its short-address
  number and its cached level.  (A group lamp's line carries python-dali's
  rendering of the group instead of a number.)
\<close>

theorem lamp_str_roundtrip:
  assumes "is_slug (device_name l)" and "short_address l = Short n"
  shows "parse_lamp_str (lamp_str str_address l) = (device_name l, n, level_get l)"
proof -
  have "lamp_str str_address l = device_name l @ '' - address: '' @ show_nat n @
          '', actual brightness level: '' @ show_int (level_get l) @ CHR '' '' #
          ''(minimum: '' @ py_str (min_level l) @ '', max: '' @ py_str (max_level l) @
          '', physical minimum: '' @ py_str (min_physical_level l) @ '')''"
    using assms(2) by (simp add: lamp_str_def Let_def)
  then show ?thesis
    using parse_lamp_str_shape [OF slug_no_space [OF assms(1)]] by simp
qed

theorem lamp_str_roundtrip_witness:
  "is_slug (device_name scenario_lamp) \<and> short_address scenario_lamp = Short 3 \<and>
   parse_lamp_str (lamp_str (\<lambda>_. ''<group>'') scenario_lamp) = (''kitchen-ceiling-light'', 3, 150)"
proof -
  have s: "is_slug (device_name scenario_lamp)"
    by (simp add: scenario_lamp_def) code_simp
  have a: "short_address scenario_lamp = Short 3" by (simp add: scenario_lamp_def)
  have "parse_lamp_str (lamp_str (\<lambda>_. ''<group>'') scenario_lamp) = (device_name scenario_lamp, 3, level_get scenario_lamp)"
    by (rule lamp_str_roundtrip [OF s a])
  with s a show ?thesis by (simp add: scenario_lamp_def level_get_def)
qed

end
