(* ===== verification/ArcPower.thy ===== *)
theory ArcPower
  imports Lamp "HOL-Library.Word"
begin

text \<open>
  The level byte of a DAPC command on the wire.  A DALI forward frame is
  sixteen bits, an address byte and a data byte; DAPC carries the arc power
  level in the data byte, where 0..254 are levels and 255 is MASK (no
  change).  The command object is python-dali's \<open>gear.DAPC(address, power)\<close>,
  not under src/: it is modelled from the library's contract, which accepts a
  power in 0..255 as the data byte and raises ValueError for any other int.
  \<open>arc_byte\<close> is that byte, \<open>None\<close> for a power the library refuses.
\<close>

definition arc_byte :: "int \<Rightarrow> 8 word option" where
  "arc_byte v = (if 0 \<le> v \<and> v \<le> 255 then Some (word_of_int v) else None)"

text \<open>
  A command whose level, if it has one, is a DALI level (not MASK) that the
  data byte carries exactly.
\<close>

fun dapc_exact :: "command \<Rightarrow> bool" where
  "dapc_exact (DAPC a w) \<longleftrightarrow> (case arc_byte w of Some b \<Rightarrow> w \<le> 254 \<and> unat b = nat w | None \<Rightarrow> False)"
| "dapc_exact _ \<longleftrightarrow> True"

section \<open>Lemmas\<close>

lemma arc_byte_exact: "0 \<le> w \<Longrightarrow> w \<le> 254 \<Longrightarrow> dapc_exact (DAPC a w)"
  by (simp add: arc_byte_def unat_eq_nat_uint uint_word_of_int)


lemma actual_level_sent: "sent (snd (actual_level l e)) = sent e @ [QueryActualLevel (short_address l)]"
proof (cases "send (QueryActualLevel (short_address l)) e")
  case (Pair r e1)
  moreover have "sent e1 = sent e @ [QueryActualLevel (short_address l)]"
    using send_query_sent [of "QueryActualLevel (short_address l)" e] Pair by simp
  ultimately show ?thesis
    by (auto simp: actual_level_def split: sum.split pyval.split)
qed

lemma clamp_int_byte:
  "0 \<le> mn \<Longrightarrow> mn \<le> mx \<Longrightarrow> mx \<le> 254 \<Longrightarrow> 0 \<le> clamp_int (PInt mn) (PInt mx) v \<and> clamp_int (PInt mn) (PInt mx) v \<le> 254"
  by auto

lemma level_setter_dapc_exact:
  assumes "min_level l = PInt mn" "max_level l = PInt mx" "0 \<le> mn" "mn \<le> mx" "mx \<le> 254"
  shows "\<exists>ys. sent (snd (level_setter v l e)) = sent e @ ys \<and> list_all dapc_exact ys"
proof -
  let ?w = "level (fst (level_setter v l e))"
  have "0 \<le> ?w \<and> ?w \<le> 254"
    using assms by (auto simp: level_setter_level split: pyval.split)
  then show ?thesis
    using level_setter_sent [of v l e] arc_byte_exact by auto
qed

section \<open>Bounds of the levels on the wire\<close>

text \<open>
  C28. With bounds that are DALI levels (\<open>0 \<le> min_level \<le> max_level \<le> 254\<close>),
  every DAPC command that a serialised run of assignments, \<open>off()\<close> calls and
  refreshes puts on the bus carries a level in 0..254, which the frame's data
  byte holds exactly (no wrap-around, never MASK), whatever the requests were.
\<close>

theorem run_ops_dapc_bytes:
  assumes "min_level l = PInt mn" and "max_level l = PInt mx"
      and "0 \<le> mn" and "mn \<le> mx" and "mx \<le> 254"
      and "run_ops l e ops = (r, e')"
  shows "\<exists>ys. sent e' = sent e @ ys \<and> list_all dapc_exact ys"
  using assms
proof (induction l e ops arbitrary: r e' rule: run_ops.induct)
  case (1 l e)
  then show ?case by simp
next
  case (2 l e v ops)
  obtain l1 e1 where s: "level_setter v l e = (l1, e1)" by fastforce
  from "2.prems" s have mn: "min_level l1 = PInt mn" and mx: "max_level l1 = PInt mx"
    using level_setter_fields [of v l e] by auto
  have run: "run_ops l1 e1 ops = (r, e')" using "2.prems"(6) s by simp
  obtain zs where "sent e' = sent e1 @ zs" "list_all dapc_exact zs"
    using "2.IH" [OF s [symmetric] mn mx "2.prems"(3-5) run] by blast
  moreover obtain ys where "sent e1 = sent e @ ys" "list_all dapc_exact ys"
    using level_setter_dapc_exact [OF "2.prems"(1-5), of v e] s by auto
  ultimately show ?case by (intro exI [of _ "ys @ zs"]) simp
next
  case (3 l e ops)
  obtain l1 e1 where s: "off l e = (l1, e1)" by fastforce
  from "3.prems" s have mn: "min_level l1 = PInt mn" and mx: "max_level l1 = PInt mx"
    by (auto simp: off_def)
  have run: "run_ops l1 e1 ops = (r, e')" using "3.prems"(6) s by simp
  obtain zs where "sent e' = sent e1 @ zs" "list_all dapc_exact zs"
    using "3.IH" [OF s [symmetric] mn mx "3.prems"(3-5) run] by blast
  moreover have "sent e1 = sent e @ [Off (short_address l)]" using s by (auto simp: off_def)
  ultimately show ?case by (intro exI [of _ "Off (short_address l) # zs"]) simp
next
  case (4 l e ops)
  obtain r1 e1 where s: "actual_level l e = (r1, e1)" by fastforce
  have se: "sent e1 = sent e @ [QueryActualLevel (short_address l)]"
    using actual_level_sent [of l e] s by simp
  show ?case
  proof (cases r1)
    case (Inl err)
    with s "4.prems"(6) se show ?thesis by auto
  next
    case (Inr l1)
    with s have fr: "l1 = l\<lparr>level := level l1\<rparr>" by (simp add: actual_level_frame)
    have mn: "min_level l1 = PInt mn" and mx: "max_level l1 = PInt mx"
      using "4.prems"(1,2) by (subst fr; simp)+
    have run: "run_ops l1 e1 ops = (r, e')" using "4.prems"(6) s Inr by simp
    obtain zs where "sent e' = sent e1 @ zs" "list_all dapc_exact zs"
      using "4.IH" [OF s [symmetric] Inr mn mx "4.prems"(3-5) run] by blast
    with se show ?thesis by (intro exI [of _ "QueryActualLevel (short_address l) # zs"]) simp
  qed
qed

theorem run_ops_dapc_bytes_witness:
  "min_level scenario_lamp = PInt 86 \<and> max_level scenario_lamp = PInt 254 \<and>
   (\<exists>ys. sent (snd (run_ops scenario_lamp quiet_env [SetLevel (PInt 300), TurnOff, SetLevel (PInt 5)])) =
           sent quiet_env @ ys \<and> list_all dapc_exact ys)"
proof -
  have mn: "min_level scenario_lamp = PInt 86" and mx: "max_level scenario_lamp = PInt 254"
    by (simp_all add: scenario_lamp_def)
  let ?ops = "[SetLevel (PInt 300), TurnOff, SetLevel (PInt 5)]"
  have r: "run_ops scenario_lamp quiet_env ?ops =
             (fst (run_ops scenario_lamp quiet_env ?ops), snd (run_ops scenario_lamp quiet_env ?ops))"
    by simp
  from run_ops_dapc_bytes [OF mn mx _ _ _ r] mn mx show ?thesis by simp
qed



end
