(* ===== verification/Writers.thy ===== *)
theory Writers
  imports Lamp
begin

text \<open>
  The two writers of spec \<section>5 and the gear they act on.  A lamp's cached
  level is written by the broker-facing worker, which first asks
  \<open>level_change_needed\<close> and then assigns \<open>level\<close>, and by a periodic poll
  that calls \<open>actual_level()\<close>; \<open>off()\<close> may come from either.  The spec
  requires the integration layer (the daemon, not among the sources) to make
  the check-then-set pair atomic with respect to the other writers.  The
  controller state \<open>ctl\<close> holds the object, the world, the gear's actual arc
  level (which DAPC and Off set, another controller on the bus may change,
  and the actual-level query reports) and the broker worker's decided but not
  yet committed request.  \<open>ctl_step locked ev\<close> is one event; with
  \<open>locked\<close> the poll and \<open>off()\<close> wait while a request is pending.
  The gear's level changes only by the commands on the bus (\<open>gear_after\<close>)
  and by another controller (\<open>Extern\<close>).
\<close>

record ctl =
  lamp_of :: lamp
  world :: env
  arc :: int
  pending :: "pyval option"

datatype writer_ev = Decide pyval | Commit | Poll | SwitchOff | Extern int

text \<open>
  The gear: a DAPC sets its arc level to the power sent, Off to 0; queries
  leave it.  \<open>gear_after e e' a\<close> is the level after the gear has applied,
  in order, the commands put on the bus between the worlds \<open>e\<close> and
  \<open>e'\<close>.  It answers the actual-level query with its arc level.
\<close>

fun gear_apply :: "command \<Rightarrow> int \<Rightarrow> int" where
  "gear_apply (DAPC _ w) a = w"
| "gear_apply (Off _) a = 0"
| "gear_apply (QueryPhysicalMinimum _) a = a"
| "gear_apply (QueryMinLevel _) a = a"
| "gear_apply (QueryMaxLevel _) a = a"
| "gear_apply (QueryActualLevel _) a = a"

definition gear_after :: "env \<Rightarrow> env \<Rightarrow> int \<Rightarrow> int" where
  "gear_after e e' a = fold gear_apply (drop (length (sent e)) (sent e')) a"

definition gear_env :: "ctl \<Rightarrow> env" where
  "gear_env s = (world s)\<lparr>replies := [Inr (PInt (arc s))]\<rparr>"

fun ctl_step :: "bool \<Rightarrow> writer_ev \<Rightarrow> ctl \<Rightarrow> ctl option" where
  "ctl_step locked (Decide v) s =
     (if pending s \<noteq> None then None
      else if level_change_needed (lamp_of s) v then Some (s\<lparr>pending := Some v\<rparr>) else Some s)"
| "ctl_step locked Commit s =
     (case pending s of
        None \<Rightarrow> None
      | Some v \<Rightarrow>
          (case level_setter v (lamp_of s) (world s) of
             (l', e') \<Rightarrow> Some (s\<lparr>lamp_of := l', world := e',
                                 arc := gear_after (world s) e' (arc s), pending := None\<rparr>)))"
| "ctl_step locked Poll s =
     (if locked \<and> pending s \<noteq> None then None
      else (case actual_level (lamp_of s) (gear_env s) of
              (Inr l', e') \<Rightarrow> Some (s\<lparr>lamp_of := l', world := e'\<rparr>)
            | (Inl _, _) \<Rightarrow> None))"
| "ctl_step locked SwitchOff s =
     (if locked \<and> pending s \<noteq> None then None
      else (case off (lamp_of s) (world s) of
              (l', e') \<Rightarrow> Some (s\<lparr>lamp_of := l', world := e', arc := gear_after (world s) e' (arc s)\<rparr>)))"
| "ctl_step locked (Extern w) s = Some (s\<lparr>arc := w\<rparr>)"

text \<open>Executions: the states reachable by a sequence of events.\<close>

inductive reach :: "bool \<Rightarrow> ctl \<Rightarrow> writer_ev list \<Rightarrow> ctl \<Rightarrow> bool" where
  reach_nil: "reach locked s [] s"
| reach_snoc: "reach locked s evs t \<Longrightarrow> ctl_step locked ev t = Some u \<Longrightarrow> reach locked s (evs @ [ev]) u"

fun run_events :: "bool \<Rightarrow> writer_ev list \<Rightarrow> ctl \<Rightarrow> ctl option" where
  "run_events locked [] s = Some s"
| "run_events locked (ev # evs) s = (case ctl_step locked ev s of None \<Rightarrow> None | Some t \<Rightarrow> run_events locked evs t)"

text \<open>The broker worker's pending request is still one that changes the level.\<close>

definition decision_valid :: "ctl \<Rightarrow> bool" where
  "decision_valid s \<longleftrightarrow> (case pending s of None \<Rightarrow> True | Some v \<Rightarrow> level_change_needed (lamp_of s) v)"



definition scenario_ctl :: ctl where
  "scenario_ctl = \<lparr>lamp_of = scenario_lamp, world = quiet_env, arc = 150, pending = None\<rparr>"

section \<open>Lemmas\<close>

lemma run_events_append:
  "run_events locked (evs @ evs') s = (case run_events locked evs s of None \<Rightarrow> None | Some t \<Rightarrow> run_events locked evs' t)"
  by (induction evs arbitrary: s) (auto split: option.split)

lemma reach_run_events: "reach locked s evs t \<longleftrightarrow> run_events locked evs s = Some t"
proof
  assume "reach locked s evs t"
  then show "run_events locked evs s = Some t"
    by induction (simp_all add: run_events_append)
next
  show "run_events locked evs s = Some t \<Longrightarrow> reach locked s evs t"
  proof (induction evs arbitrary: t rule: rev_induct)
    case Nil
    then show ?case by (simp add: reach_nil)
  next
    case (snoc ev evs)
    then obtain m where "run_events locked evs s = Some m" and "ctl_step locked ev m = Some t"
      by (auto simp: run_events_append split: option.splits)
    with snoc.IH show ?case by (blast intro: reach_snoc)
  qed
qed

lemma actual_level_gear:
  "actual_level l (gear_env s) =
     (Inr (l\<lparr>level := arc s\<rparr>), (gear_env s)\<lparr>sent := sent (world s) @ [QueryActualLevel (short_address l)], replies := []\<rparr>)"
  by (simp add: actual_level_def send_query_reply gear_env_def)

lemma ctl_step_Commit:
  "pending s = Some v \<Longrightarrow>
   ctl_step locked Commit s =
     Some (s\<lparr>lamp_of := fst (level_setter v (lamp_of s) (world s)), world := snd (level_setter v (lamp_of s) (world s)),
             arc := gear_after (world s) (snd (level_setter v (lamp_of s) (world s))) (arc s), pending := None\<rparr>)"
  by (simp split: prod.split)




lemma level_change_needed_int: "level_change_needed l v \<Longrightarrow> is_int v"
  by (cases v) (simp_all add: level_change_needed_def)

text \<open>Serialised, a pending request stays one that changes the level.\<close>

lemma ctl_step_decision_valid:
  "locked \<Longrightarrow> decision_valid s \<Longrightarrow> ctl_step locked ev s = Some t \<Longrightarrow> decision_valid t"
  by (cases ev) (auto simp: decision_valid_def split: if_splits option.splits prod.splits sum.splits)

lemma reach_decision_valid:
  "reach locked s0 evs s \<Longrightarrow> locked \<Longrightarrow> pending s0 = None \<Longrightarrow> decision_valid s"
proof (induction rule: reach.induct)
  case (reach_nil locked s)
  then show ?case by (simp add: decision_valid_def)
next
  case (reach_snoc locked s evs t ev u)
  then show ?case by (blast intro: ctl_step_decision_valid)
qed




section \<open>Properties of the two writers\<close>

text \<open>
  C30. With the check-then-set pair serialised against the poll and
  \<open>off()\<close>, as spec \<section>5 requires, a commit of the broker worker always
  changes the cached level, unless the request was 0 (which
  \<open>level_change_needed\<close> always passes): no redundant DAPC reaches the bus,
  whatever the other controllers on the bus do meanwhile.
\<close>

theorem serialised_commit_changes_level:
  assumes "reach True s0 evs s" and "pending s0 = None" and "ctl_step True Commit s = Some t"
  shows "level (lamp_of t) \<noteq> level (lamp_of s) \<or> pending s = Some (PInt 0)"
proof -
  from assms(3) obtain v where p: "pending s = Some v" by (auto split: option.splits)
  from reach_decision_valid [OF assms(1) _ assms(2)] p
  have n: "level_change_needed (lamp_of s) v" by (simp add: decision_valid_def)
  then obtain i where v: "v = PInt i" using level_change_needed_int by auto
  have t: "lamp_of t = fst (level_setter v (lamp_of s) (world s))"
    using assms(3) ctl_step_Commit [OF p, of True] by simp
  show ?thesis
  proof (cases "i = 0")
    case True
    with p v show ?thesis by simp
  next
    case False
    with n v have "clamp_int (min_level (lamp_of s)) (max_level (lamp_of s)) i \<noteq> level (lamp_of s)"
      by (simp add: level_change_needed_nonzero)
    with False t v show ?thesis by (simp add: level_setter_level)
  qed
qed

theorem serialised_commit_changes_level_witness:
  "reach True scenario_ctl [Decide (PInt 100)] (scenario_ctl\<lparr>pending := Some (PInt 100)\<rparr>) \<and>
   pending scenario_ctl = None \<and>
   ctl_step True Commit (scenario_ctl\<lparr>pending := Some (PInt 100)\<rparr>) \<noteq> None \<and>
   level (lamp_of (the (ctl_step True Commit (scenario_ctl\<lparr>pending := Some (PInt 100)\<rparr>)))) \<noteq> 150"
proof -
  let ?s = "scenario_ctl\<lparr>pending := Some (PInt 100)\<rparr>"
  have n: "level_change_needed scenario_lamp (PInt 100)"
    by (simp add: level_change_needed_nonzero scenario_lamp_def)
  have r: "reach True scenario_ctl [Decide (PInt 100)] ?s"
    using n by (simp add: reach_run_events scenario_ctl_def)
  have p0: "pending scenario_ctl = None" by (simp add: scenario_ctl_def)
  have c: "ctl_step True Commit ?s = Some (the (ctl_step True Commit ?s))"
    by (simp split: prod.split)
  have l: "level (lamp_of ?s) = 150" by (simp add: scenario_ctl_def scenario_lamp_def)
  from serialised_commit_changes_level [OF r p0 c] l r p0 c show ?thesis by (simp split: prod.split)
qed

text \<open>
  C31. Without that serialisation the check can go stale.  Whenever the
  broker worker has decided a non-zero request and another controller has
  meanwhile set the gear to the level that request would commit, the lock
  refuses a poll before the commit; without the lock the poll caches the
  gear's level, after which the request no longer needs a change, and the
  commit still sends a DAPC that leaves the cached level as it was.
\<close>

theorem unserialised_commit_redundant:
  assumes "pending s = Some (PInt v)" and "v \<noteq> 0"
      and "arc s = clamp_int (min_level (lamp_of s)) (max_level (lamp_of s)) v"
  shows "ctl_step True Poll s = None \<and>
         (\<exists>s1 t. ctl_step False Poll s = Some s1 \<and> \<not> level_change_needed (lamp_of s1) (PInt v) \<and>
                ctl_step False Commit s1 = Some t \<and> level (lamp_of t) = level (lamp_of s1) \<and>
                sent (world t) = sent (world s1) @ [DAPC (short_address (lamp_of s)) (level (lamp_of s1))])"
proof -
  let ?s1 = "s\<lparr>lamp_of := (lamp_of s)\<lparr>level := arc s\<rparr>,
              world := (gear_env s)\<lparr>sent := sent (world s) @ [QueryActualLevel (short_address (lamp_of s))], replies := []\<rparr>\<rparr>"
  have poll: "ctl_step False Poll s = Some ?s1" by (simp add: actual_level_gear)
  have locked: "ctl_step True Poll s = None" using assms(1) by simp
  have p1: "pending ?s1 = Some (PInt v)" using assms(1) by simp
  have c: "clamp_int (min_level (lamp_of ?s1)) (max_level (lamp_of ?s1)) v = level (lamp_of ?s1)"
    using assms(3) by simp
  then have nn: "\<not> level_change_needed (lamp_of ?s1) (PInt v)"
    using assms(2) by (simp add: level_change_needed_nonzero)
  let ?r = "level_setter (PInt v) (lamp_of ?s1) (world ?s1)"
  have commit: "ctl_step False Commit ?s1 =
                  Some (?s1\<lparr>lamp_of := fst ?r, world := snd ?r, arc := gear_after (world ?s1) (snd ?r) (arc ?s1),
                              pending := None\<rparr>)"
    by (rule ctl_step_Commit [OF p1])
  have lv: "level (fst ?r) = level (lamp_of ?s1)"
    using c assms(2) by (simp add: level_setter_level)
  have st: "sent (snd ?r) = sent (world ?s1) @ [DAPC (short_address (lamp_of s)) (level (lamp_of ?s1))]"
    using lv by (simp add: level_setter_sent)
  let ?t = "?s1\<lparr>lamp_of := fst ?r, world := snd ?r, arc := gear_after (world ?s1) (snd ?r) (arc ?s1),
                   pending := None\<rparr>"
  have "\<exists>s1 t. ctl_step False Poll s = Some s1 \<and> \<not> level_change_needed (lamp_of s1) (PInt v) \<and>
                ctl_step False Commit s1 = Some t \<and> level (lamp_of t) = level (lamp_of s1) \<and>
                sent (world t) = sent (world s1) @ [DAPC (short_address (lamp_of s)) (level (lamp_of s1))]"
  proof (intro exI conjI)
    show "ctl_step False Poll s = Some ?s1" by (rule poll)
    show "\<not> level_change_needed (lamp_of ?s1) (PInt v)" by (rule nn)
    show "ctl_step False Commit ?s1 = Some ?t" by (rule commit)
    show "level (lamp_of ?t) = level (lamp_of ?s1)" using lv by simp
    show "sent (world ?t) = sent (world ?s1) @ [DAPC (short_address (lamp_of s)) (level (lamp_of ?s1))]"
      using st by simp
  qed
  with locked show ?thesis by (rule conjI)
qed

theorem unserialised_commit_redundant_witness:
  "pending (scenario_ctl\<lparr>pending := Some (PInt 100), arc := 100\<rparr>) = Some (PInt 100) \<and> (100::int) \<noteq> 0 \<and>
   arc (scenario_ctl\<lparr>pending := Some (PInt 100), arc := 100\<rparr>) =
     clamp_int (min_level (lamp_of (scenario_ctl\<lparr>pending := Some (PInt 100), arc := 100\<rparr>)))
               (max_level (lamp_of (scenario_ctl\<lparr>pending := Some (PInt 100), arc := 100\<rparr>))) 100 \<and>
   ctl_step True Poll (scenario_ctl\<lparr>pending := Some (PInt 100), arc := 100\<rparr>) = None"
proof -
  let ?s = "scenario_ctl\<lparr>pending := Some (PInt 100), arc := 100\<rparr>"
  have p: "pending ?s = Some (PInt 100)" by simp
  have a: "arc ?s = clamp_int (min_level (lamp_of ?s)) (max_level (lamp_of ?s)) 100"
    by (simp add: scenario_ctl_def scenario_lamp_def)
  from unserialised_commit_redundant [OF p _ a] p a show ?thesis by simp
qed



end
