(* ===== verification/Spec2Isabelle.thy ===== *)
theory Spec2Isabelle
  imports LampInit LegacyLamp Discovery GroupMembers LampStr ArcPower Writers
begin

text \<open>
  \<^bold>\<open>A verification model of dali2mqtt's lamp controller.\<close>

  \<^bold>\<open>The program.\<close>  dali2mqtt bridges DALI lighting gear to MQTT.  The
  repository's sources here are two versions of one class: \<open>Lamp\<close> in
  src/dali2mqtt/lamp.py (current) and \<open>Lamp\<close> in src/lamp.py (legacy).  A lamp
  object seeds its bounds and level from four bus queries, keeps the cached
  brightness \<open>level\<close> behind a property setter that sends a DAPC (direct arc
  power) command, predicts with \<open>level_change_needed\<close> whether a request
  would change that level, turns the gear off, re-reads the actual level,
  renders a Home Assistant discovery document and, for a group address,
  collects member lamps.  It talks to the DALI driver (python-dali) through
  \<open>driver.send\<close> and writes to a module logger; the daemon that owns the
  lamps and the MQTT client is not among the sources.

  \<^bold>\<open>Theories and what they model.\<close>
  \<^item> Prelude: Python values (\<open>pyval\<close>: int, str, None) with \<open>isinstance\<close>
    and truthiness, the exceptions (\<open>pyerror\<close>), a bus reply as what
    reading \<open>.value\<close> does (\<open>pyerror + pyval\<close>), shared list lemmas.
  \<^item> Driver: the world a lamp acts on (\<open>env\<close>): the bus log and the scripted
    replies of \<open>driver.send\<close> (\<open>send\<close>), the logger's threshold and records
    (\<open>set_log_level\<close>, \<open>log_emit\<close>, \<open>ALL_SUPPORTED_LOG_LEVELS\<close>).  The
    driver and \<open>consts.py\<close> are not under src/: modelled from the spec.
  \<^item> Slugify: python-slugify's \<open>slugify\<close> on ASCII input (library code,
    modelled from the spec) as a three-state scanner \<open>slug_scan\<close>, with
    the slug shape \<open>is_slug\<close> it always produces.
  \<^item> Lamp: the methods of src/dali2mqtt/lamp.py on the record \<open>lamp\<close>
    (the object's attributes): \<open>actual_level\<close> (lines 91--97),
    \<open>level_setter\<close> (104--120), \<open>level_change_needed\<close> (122--134), \<open>off\<close>
    (139--142), \<open>is_group\<close> and \<open>add_associated_lamp\<close> (153--159).  Each
    takes the object and the world and returns both; \<open>actual_level\<close>
    returns \<open>pyerror + lamp\<close> because its \<open>.value\<close> read raises.  Runs of
    operations on one object, as the daemon serialises them, are
    \<open>run_ops\<close> over the datatype \<open>lamp_op\<close>.  \<open>clamp_int\<close> is the clamp
    the setter and the predictor share, read off as a function;
    \<open>clamp_level\<close> the spec's contract; \<open>level_ok\<close>/\<open>bounds_ok\<close> the
    invariant of spec \<section>3 and its precondition.
  \<^item> LampInit: the constructor \<open>lamp_init\<close> (lines 29--59) with every read,
    fallback, warning and error path, and the state it reaches before the
    level assignment (\<open>seeded_lamp\<close>, \<open>seeded_env\<close>).
  \<^item> LegacyLamp: src/lamp.py's getter \<open>legacy_level_get\<close> (lines 74--77),
    raising setter \<open>legacy_level_setter\<close> (79--87) and constructor
    \<open>legacy_init\<close> (20--40), on the same record.  The module's logger state
    after import is \<open>module_env\<close> (theory Lamp, src/dali2mqtt/lamp.py lines
    22--23): threshold WARNING until a constructor sets it.
  \<^item> Json: \<open>json.dumps\<close> on the values the document holds (library code,
    modelled from its documented defaults), and a reader of what it writes
    (\<open>json_read\<close>, a \<open>partial_function\<close> in the option monad, and
    \<open>json_loads\<close>) standing for the hub that consumes the document.
  \<^item> Discovery: \<open>gen_ha_config\<close> of both versions, the dictionary literal
    as the association list \<open>ha_config_doc\<close>; the topic templates.
  \<^item> GroupMembers: the object graph as a heap (\<open>nat \<Rightarrow> lamp option\<close>),
    since \<open>associated_lamps\<close> holds references; \<open>heap_add_member\<close>
    updates through it.
  \<^item> LampStr: \<open>Lamp.__str__\<close> (lines 144--151) as \<open>lamp_str\<close>, over the
    getter \<open>level_get\<close> (99--102), with \<open>py_str\<close> for \<open>str()\<close> of a bound,
    \<open>address_text\<close> for line 146 (a short address prints its number, a
    group address, having no \<open>.address\<close>, prints python-dali's rendering),
    and a reader \<open>parse_lamp_str\<close> of the line.
  \<^item> ArcPower: the data byte of a DAPC frame (\<open>arc_byte\<close>, an
    \<open>8 word option\<close>: python-dali's \<open>gear.DAPC\<close> takes a power in 0..255
    and raises ValueError otherwise) and the levels the setter hands it.
  \<^item> Writers: the integration layer of spec \<section>5 and \<section>7 (the daemon, not
    among the sources): a controller state \<open>ctl\<close> (object, world, the
    gear's arc level, set only by the commands on the bus through
    \<open>gear_after\<close>, the broker worker's pending request), one event
    \<open>ctl_step\<close> (decide with \<open>level_change_needed\<close>, commit with the setter,
    poll with \<open>actual_level\<close>, \<open>off()\<close>, another controller changing the
    gear), with or without the per-lamp lock, and executions as the
    inductive \<open>reach\<close> (executable as \<open>run_events\<close>).

  \<^bold>\<open>What is proved\<close> (claims C1..C33, each after a text naming it).
  Setter and predictor (C1--C8): the setter refines the clamp contract and
  sends one DAPC; the predictor agrees with it on non-zero ints; serialised
  runs of sets and offs keep the level invariant under ordered bounds and
  never raise; a fresh set needs no change; malformed requests, \<open>off\<close>'s
  idempotence, the refresh's case table, and exactly when a refresh keeps
  the invariant (it does not clamp).  Constructor (C9--C14): fallbacks, the
  tolerated physical-minimum read, the three raising reads, the DAPC it
  sends, the object's shape, an unknown log-level name.  Device name (C15,
  C16, in LampInit over Slugify's lemmas): the constructor's
  \<open>slugify(friendly_name)\<close> is a slug with the name's letters and digits,
  the slugs being its fixed points, and two lamps whose names differ in case
  or separators get the same device name.  Legacy class (C17--C20): the clamping setter refines
  the raising one on accepted requests and on clamped values, out-of-range
  requests raise, the legacy constructor writes before it raises.
  Discovery (C21, C23, C24, C33): both versions render the same document,
  topics of distinct lamps never collide, the brightness scale is an int,
  and every document decodes as JSON to an object with distinct keys holding
  the spec's fields with their meanings.  Frame (C22): runs change only the
  cached level.  Groups (C25, C26): members in call order, the heap
  invariant that only groups hold members.  C27: the \<open>__str__\<close> line of a
  short-address lamp reads back to device name, address and level.  Wire
  (C28, C29): with byte bounds every DAPC of a run is accepted by python-dali
  and fits the data byte exactly; with a non-int minimum a negative request is
  cached and handed to \<open>gear.DAPC\<close>, which refuses it.  Writers
  (C30--C32): serialised, a commit is never redundant; unserialised, a poll
  between check and set after another controller moved the gear makes the
  commit redundant; without other controllers the cache equals the gear's
  level, which only the lamp's commands set, in every execution (rule
  induction over \<open>reach\<close>).

  \<^bold>\<open>Bounds and fuel.\<close>  Every definition of the program is structurally
  recursive or a \<open>fun\<close> with an automatic termination proof
  (\<open>show_nat\<close> by the decreasing quotient); no fuel is needed, and the
  lamp code itself has no loop, so there is no termination claim.  The one
  definition that may diverge is the JSON reader standing for the hub, a
  \<open>partial_function\<close>; that it returns on every rendered document is part
  of C33.  Ints are Python's unbounded ints in the lamp code, which never
  narrows them; only the frame's data byte is an \<open>8 word\<close>.

  \<^bold>\<open>Plan.\<close>  The MQTT payload parsing of the daemon in front of the
  writers (not among the sources, so only from the spec).

  \<^bold>\<open>Not modelled.\<close>  The MQTT client and the daemon beyond the writer
  discipline of theory Writers (not in the sources);
  the DALI wire protocol beyond the DAPC data byte, and python-dali's address
  rendering (a parameter \<open>str_address\<close>); the ValueError of \<open>gear.DAPC\<close>
  inside the model's \<open>send\<close>, which follows the spec's fire-and-forget
  writes (C29 states the refusal separately); log message formatting; unidecode
  transliteration of non-ASCII text in \<open>slugify\<close> and its rules beyond the
  spec's description (HTML entities, commas between digits).  The remaining
  lines of the two source files are imports, docstrings and the class
  headers: every statement of both classes has a definition in the map.
\<close>


section \<open>Properties spanning the components\<close>

text \<open>
  C23. Discovery topics never collide between lamps built by the constructor:
  if one of the state, command, brightness-state, brightness-command or
  availability topics of one lamp's document equals one of those of another
  lamp's document (same base topic), then it is the same field, and, unless it
  is the shared availability topic, the two lamps have the same device name.
  The reason is that device names are slugs, which hold no \<open>/\<close>.
\<close>

theorem discovery_topics_no_collision:
  assumes "lamp_init n1 drv1 f1 a1 e1 = (Inr l1, e1')" and "lamp_init n2 drv2 f2 a2 e2 = (Inr l2, e2')"
      and "k1 \<in> {''stat_t'', ''cmd_t'', ''bri_stat_t'', ''bri_cmd_t'', ''avty_t''}"
      and "k2 \<in> {''stat_t'', ''cmd_t'', ''bri_stat_t'', ''bri_cmd_t'', ''avty_t''}"
      and "map_of (ha_config_doc s v l1 base) k1 = map_of (ha_config_doc s v l2 base) k2"
  shows "k1 = k2 \<and> (k1 = ''avty_t'' \<or> device_name l1 = device_name l2)"
proof -
  let ?K = "{''stat_t'', ''cmd_t'', ''bri_stat_t'', ''bri_cmd_t''}"
  have s1: "CHR ''/'' \<notin> set (device_name l1)"
    using lamp_init_device_name [OF assms(1)] slug_scan_is_slug slug_no_slash by simp
  have s2: "CHR ''/'' \<notin> set (device_name l2)"
    using lamp_init_device_name [OF assms(2)] slug_scan_is_slug slug_no_slash by simp
  have no_status: "''status'' \<noteq> d @ CHR ''/'' # t" for d t
  proof
    assume "''status'' = d @ CHR ''/'' # t"
    then have "CHR ''/'' \<in> set ''status''" by simp
    then show False by simp
  qed
  show ?thesis
  proof (cases "k1 = ''avty_t''"; cases "k2 = ''avty_t''")
    assume "k1 = ''avty_t''" and "k2 = ''avty_t''"
    then show ?thesis by simp
  next
    assume a: "k1 = ''avty_t''" and b: "k2 \<noteq> ''avty_t''"
    with assms(4) have "k2 \<in> ?K" by simp
    with a assms(5) have "''status'' = device_name l2 @ CHR ''/'' # topic_suffix k2"
      by (simp add: ha_config_doc_topic ha_config_doc_avty)
    with no_status show ?thesis by blast
  next
    assume a: "k1 \<noteq> ''avty_t''" and b: "k2 = ''avty_t''"
    with assms(3) have "k1 \<in> ?K" by simp
    with b assms(5) have "''status'' = device_name l1 @ CHR ''/'' # topic_suffix k1"
      by (simp add: ha_config_doc_topic ha_config_doc_avty)
    with no_status show ?thesis by blast
  next
    assume a: "k1 \<noteq> ''avty_t''" and b: "k2 \<noteq> ''avty_t''"
    with assms(3,4) have k1: "k1 \<in> ?K" and k2: "k2 \<in> ?K" by simp_all
    with assms(5) have "device_name l1 @ CHR ''/'' # topic_suffix k1 = device_name l2 @ CHR ''/'' # topic_suffix k2"
      by (simp add: ha_config_doc_topic)
    with s1 s2 have "device_name l1 = device_name l2 \<and> topic_suffix k1 = topic_suffix k2"
      by (rule append_sep_cancel)
    with topic_suffix_inj [OF k1 k2] show ?thesis by blast
  qed
qed

theorem discovery_topics_no_collision_witness:
  "\<exists>l e'. lamp_init ''info'' ''HassebDALIUSBDriver'' ''Hall'' (Short 1)
             (quiet_env\<lparr>replies := [Inr (PInt 0), Inr (PInt 100), Inr (PInt 254), Inr (PInt 20)]\<rparr>) = (Inr l, e') \<and>
           ''stat_t'' \<in> {''stat_t'', ''cmd_t'', ''bri_stat_t'', ''bri_cmd_t'', ''avty_t''} \<and>
           map_of (ha_config_doc (\<lambda>_. ''<address 1>'') ''0.1'' l ''dali2mqtt'') ''stat_t'' =
             map_of (ha_config_doc (\<lambda>_. ''<address 1>'') ''0.1'' l ''dali2mqtt'') ''stat_t'' \<and>
           (''stat_t'' = ''stat_t'' \<and> (''stat_t'' = ''avty_t'' \<or> device_name l = device_name l))"
proof -
  let ?e = "quiet_env\<lparr>replies := [Inr (PInt 0), Inr (PInt 100), Inr (PInt 254), Inr (PInt 20)]\<rparr>"
  have lv: "map_of ALL_SUPPORTED_LOG_LEVELS ''info'' = Some 20"
    by (simp add: ALL_SUPPORTED_LOG_LEVELS_def WARNING_def DEBUG_def)
  have r: "replies ?e = Inr (PInt 0) # Inr (PInt 100) # Inr (PInt 254) # Inr (PInt 20) # []" by simp
  obtain l e' where run: "lamp_init ''info'' ''HassebDALIUSBDriver'' ''Hall'' (Short 1) ?e = (Inr l, e')"
    using lamp_init_success [OF lv r] by (simp add: Let_def)
  have k: "''stat_t'' \<in> {''stat_t'', ''cmd_t'', ''bri_stat_t'', ''bri_cmd_t'', ''avty_t''}" by simp
  from discovery_topics_no_collision [OF run run k k refl] run k show ?thesis by blast
qed

text \<open>
  C24. The brightness scale of every constructed lamp's discovery document is
  a JSON number, the lamp's maximum level (never python-dali's
  \<open>"MASK"\<close>), because the constructor falls back to 254 for a non-int maximum.
\<close>

theorem discovery_brightness_scale:
  assumes "lamp_init name drv fname addr e = (Inr l, e')"
  shows "\<exists>m. map_of (ha_config_doc s v l base) ''bri_scl'' = Some (JInt m) \<and> max_level l = PInt m"
  using lamp_init_max_level [OF assms] by (auto simp: ha_config_doc_bri_scl)

theorem discovery_brightness_scale_witness:
  "\<exists>l e'. lamp_init ''info'' ''HassebDALIUSBDriver'' ''Hall'' (Short 1)
             (quiet_env\<lparr>replies := [Inr (PInt 0), Inr (PInt 100), Inr (PStr ''MASK''), Inr (PInt 20)]\<rparr>) = (Inr l, e') \<and>
           (\<exists>m. map_of (ha_config_doc (\<lambda>_. ''<address 1>'') ''0.1'' l ''dali2mqtt'') ''bri_scl'' = Some (JInt m) \<and>
                max_level l = PInt m)"
proof -
  let ?e = "quiet_env\<lparr>replies := [Inr (PInt 0), Inr (PInt 100), Inr (PStr ''MASK''), Inr (PInt 20)]\<rparr>"
  have lv: "map_of ALL_SUPPORTED_LOG_LEVELS ''info'' = Some 20"
    by (simp add: ALL_SUPPORTED_LOG_LEVELS_def WARNING_def DEBUG_def)
  have r: "replies ?e = Inr (PInt 0) # Inr (PInt 100) # Inr (PStr ''MASK'') # Inr (PInt 20) # []" by simp
  obtain l e' where run: "lamp_init ''info'' ''HassebDALIUSBDriver'' ''Hall'' (Short 1) ?e = (Inr l, e')"
    using lamp_init_success [OF lv r] by (simp add: Let_def)
  from discovery_brightness_scale [OF run] run show ?thesis by blast
qed

end
